theory Spec2Isabelle
  imports Complex_Main
begin

text \<open>
  A model of the workload simulation and monitoring engine of the SQL Server framework:
  the parameter generators, the workload executor, the resource monitor and the read-back
  of the metrics collector, with the properties their specification states about them.
  Collaborators outside these modules (the database adapter, the clocks, the random
  generator, psutil, the JSON and date parsers) are inputs of the model.
\<close>

section \<open>Data model (core/models.py)\<close>

text \<open>
  Python values that travel as query parameters and column samples (the source types them
  \<open>Any\<close>): \<open>None\<close>, integers, strings and tuples.
\<close>

datatype pyval = PNone | PInt int | PStr string | PTuple "pyval list"

text \<open>Exceptions of class \<open>Exception\<close>, the ones \<open>except Exception\<close> catches.\<close>

datatype exn = ValueError | IndexError | KeyError | TypeError | OverflowError
  | ConnectionError | OtherError string

text \<open>
  A result row is a dict from column names to values. With \<open>fetch_results=True\<close> the
  query-execution collaborator (core/adapters.py, \<open>execute_query\<close>) returns a list of rows,
  an integer row count, or \<open>None\<close> when the driver reported an error.
\<close>

type_synonym row = "(string \<times> pyval) list"

datatype raw_result = RList "row list" | RInt int | RNone

record QueryParamGeneratorConfig =
  gen_type :: string
  table :: "string option"
  column :: "string option"
  sample_size :: "int option"
  start_days_ago :: "int option"
  end_days_ago :: "int option"

record QueryDefinition =
  q_name :: string
  template :: string
  weight :: int
  param_generators :: "QueryParamGeneratorConfig list"

record WorkloadConfig =
  wl_name :: string
  wl_type :: string
  enabled :: bool
  duration_seconds :: int
  concurrency :: int
  queries :: "QueryDefinition list"

record MonitoringMetricConfig =
  m_name :: string
  m_query :: string
  frequency_seconds :: int

record MonitoringConfig =
  os_metrics :: "string list"
  dbms_metrics :: "MonitoringMetricConfig list"
  monitoring_interval_seconds :: int

record ResourceMetric =
  rm_timestamp :: real
  cpu_percent :: "real option"
  memory_percent :: "real option"
  disk_io_read_bytes :: "int option"
  disk_io_write_bytes :: "int option"

text \<open>
  \<open>DBMSMetricData\<close> is a dataclass whose field types are not checked at run time: the
  sampler fills it with a name and a row, the read-back with whatever the log line holds.
\<close>

record ('n, 'd) DBMSMetricData =
  metric_name :: 'n
  dm_timestamp :: real
  data :: 'd

record QueryExecutionMetric =
  qm_timestamp :: real
  workload_name :: string
  query_name :: string
  query_template :: string
  parameters :: "pyval list"
  duration_ms :: real
  rows_affected_or_fetched :: "int option"
  success :: bool

text \<open>
  A log record is the level and the message as the source writes it (the text of the
  f-string, fields not expanded).
\<close>

datatype level = DEBUG | INFO | WARNING | ERROR

type_synonym log_record = "level \<times> string"

section \<open>The random module\<close>

text \<open>
  \<open>random.choice(seq)\<close> is \<open>seq[randbelow(len(seq))]\<close> and raises IndexError on an
  empty sequence; \<open>random.randint(a, b)\<close> is \<open>a + randbelow(b - a + 1)\<close> and raises
  ValueError on an empty range. The generator's raw draw \<open>r\<close> is an input; it is reduced
  to a number below the size of the range.
\<close>

definition py_choice :: "'a list \<Rightarrow> nat \<Rightarrow> exn + 'a" where
  "py_choice xs r = (if xs = [] then Inl IndexError else Inr (xs ! (r mod length xs)))"

definition py_randint :: "int \<Rightarrow> int \<Rightarrow> nat \<Rightarrow> exn + int" where
  "py_randint a b r =
     (if a \<le> b then Inr (a + int (r mod nat (b - a + 1))) else Inl ValueError)"

text \<open>
  The probability that a uniform pick over \<open>pool\<close> returns \<open>q\<close>: the share of the
  indices \<open>0 ..< len(pool)\<close> at which \<open>random.choice\<close> returns \<open>q\<close>.
\<close>

definition pick_probability :: "'a list \<Rightarrow> 'a \<Rightarrow> real" where
  "pick_probability pool q =
     real (length (filter (\<lambda>r. py_choice pool r = Inr q) [0 ..< length pool]))
       / real (length pool)"

section \<open>The workload executor (core/workload\_executor.py)\<close>

subsection \<open>Collaborators and state\<close>

text \<open>
  What the executor reads from outside itself: the schema manager's table metadata
  (\<open>{pk_column, min_id, max_id}\<close> per table, refreshed before the run), the database
  adapter, the random generator, the clocks and the stop event. Each answer may depend on
  when it is asked: the executor counts its requests (\<open>steps\<close>) and every collaborator
  is a function of that count.
\<close>

record table_meta =
  pk_column :: string
  min_id :: "int option"
  max_id :: "int option"

record world =
  tables_metadata :: "string \<Rightarrow> table_meta option"
  get_column_sample :: "nat \<Rightarrow> string \<Rightarrow> string \<Rightarrow> int \<Rightarrow> exn + pyval list"
  execute_query :: "nat \<Rightarrow> string \<Rightarrow> pyval list \<Rightarrow> exn + raw_result"
  random_draw :: "nat \<Rightarrow> nat"
  perf_counter :: "nat \<Rightarrow> real"
  time_time :: "nat \<Rightarrow> real"
  datetime_now :: "nat \<Rightarrow> real"
  format_days_ago :: "real \<Rightarrow> int \<Rightarrow> exn + string"
  stop_is_set :: "nat \<Rightarrow> bool"

text \<open>
  \<open>format_days_ago now d\<close> stands for
  \<open>(now - timedelta(days=d)).strftime('%Y-%m-%d %H:%M:%S')\<close>, which raises
  OverflowError when the date leaves the calendar.
\<close>

type_synonym cache_key = "string \<times> string \<times> string \<times> int"

datatype db_call = GetColumnSample string string int | ExecuteQuery string "pyval list"

text \<open>
  The executor's state: \<open>_param_cache\<close>, the calls it has issued to the adapter, the
  metrics it has handed to \<open>metrics_collector.log_query_execution\<close>, and its logger.
\<close>

record executor =
  param_cache :: "cache_key \<Rightarrow> pyval list option"
  db_calls :: "db_call list"
  query_log :: "QueryExecutionMetric list"
  logged :: "log_record list"
  steps :: nat

definition tick :: "executor \<Rightarrow> executor" where
  "tick s = s\<lparr>steps := Suc (steps s)\<rparr>"

definition emit :: "level \<Rightarrow> string \<Rightarrow> executor \<Rightarrow> executor" where
  "emit lv msg s = s\<lparr>logged := logged s @ [(lv, msg)]\<rparr>"

text \<open>Truth value of an \<open>Optional[str]\<close>: \<open>None\<close> and the empty string are false.\<close>

definition truthy :: "string option \<Rightarrow> bool" where
  "truthy x = (case x of None \<Rightarrow> False | Some v \<Rightarrow> v \<noteq> [])"

subsection \<open>\_generate\_query\_param\<close>

text \<open>
  The branch \<open>random_int_from_column_range\<close> (lines 30 to 41). The metadata is looked
  up by table; only ValueError is caught around \<open>random.randint\<close>.
\<close>

definition range_param :: "world \<Rightarrow> QueryParamGeneratorConfig \<Rightarrow> executor \<Rightarrow> (exn + pyval) \<times> executor" where
  "range_param w cfg s =
     (if \<not> truthy (table cfg) \<or> \<not> truthy (column cfg)
      then (Inr (PInt 1),
            emit WARNING ''Missing table/column for random_int_from_column_range. Returning 1.'' s)
      else
        (case tables_metadata w (the (table cfg)) of
           None \<Rightarrow> (Inr (PInt 1),
             emit WARNING ''Metadata for {param_gen_config.table} or range for {param_gen_config.column} missing. Default 1.'' s)
         | Some meta \<Rightarrow>
             (case (min_id meta, max_id meta) of
                (Some lo, Some hi) \<Rightarrow>
                  (case py_randint lo hi (random_draw w (steps s)) of
                     Inr v \<Rightarrow> (Inr (PInt v), tick s)
                   | Inl ValueError \<Rightarrow> (Inr (PInt 1),
                       emit WARNING ''Range invalid for {param_gen_config.table}.{param_gen_config.column}. Default 1.'' (tick s))
                   | Inl e \<Rightarrow> (Inl e, tick s))
              | _ \<Rightarrow> (Inr (PInt 1),
                  emit WARNING ''Metadata for {param_gen_config.table} or range for {param_gen_config.column} missing. Default 1.'' s))))"

text \<open>
  The branch \<open>random_from_column_sample\<close> (lines 43 to 58) holds the function's only
  \<open>await\<close>, on line 52: on a cache miss the fetch is issued and the task is suspended
  until the adapter answers; other tasks of the same executor run meanwhile.
  \<open>sample_request\<close> is the code up to that point, \<open>sample_resume\<close> the code after it.
  A pending fetch carries its cache key and the adapter's answer.
  \<open>sample_size = param_gen_config.sample_size or 100\<close> turns \<open>None\<close> and 0 into 100.
\<close>

datatype pending = Pending cache_key "exn + pyval list"

definition sample_pick :: "world \<Rightarrow> cache_key \<Rightarrow> executor \<Rightarrow> (exn + pyval) \<times> executor" where
  "sample_pick w key s =
     (case param_cache s key of
        None \<Rightarrow> (Inl KeyError, s)
      | Some cached_sample \<Rightarrow>
          (if cached_sample = [] then (Inr (PStr ''default_sample_value''), s)
           else (case py_choice cached_sample (random_draw w (steps s)) of
                   Inr v \<Rightarrow> (Inr v, tick s)
                 | Inl e \<Rightarrow> (Inl e, tick s))))"

definition effective_sample_size :: "QueryParamGeneratorConfig \<Rightarrow> int" where
  "effective_sample_size cfg =
     (case sample_size cfg of None \<Rightarrow> 100 | Some n \<Rightarrow> if n = 0 then 100 else n)"

definition cache_key_of :: "QueryParamGeneratorConfig \<Rightarrow> cache_key" where
  "cache_key_of cfg =
     (gen_type cfg, the (table cfg), the (column cfg), effective_sample_size cfg)"

definition sample_request :: "world \<Rightarrow> QueryParamGeneratorConfig \<Rightarrow> executor \<Rightarrow> ((exn + pyval) + pending) \<times> executor" where
  "sample_request w cfg s =
     (if \<not> truthy (table cfg) \<or> \<not> truthy (column cfg)
      then (Inl (Inr (PStr ''default_sample_value'')),
            emit WARNING ''Missing table/column for random_from_column_sample. Returning 'default'.'' s)
      else
        (let sample_size = effective_sample_size cfg;
             cache_key = cache_key_of cfg
         in if param_cache s cache_key = None
            then (Inr (Pending cache_key
                         (get_column_sample w (steps s) (the (table cfg)) (the (column cfg)) sample_size)),
                  tick (s\<lparr>db_calls := db_calls s
                             @ [GetColumnSample (the (table cfg)) (the (column cfg)) sample_size]\<rparr>))
            else (case sample_pick w cache_key s of (r, s') \<Rightarrow> (Inl r, s'))))"

definition sample_resume :: "world \<Rightarrow> pending \<Rightarrow> executor \<Rightarrow> (exn + pyval) \<times> executor" where
  "sample_resume w p s =
     (case p of
        Pending cache_key (Inl e) \<Rightarrow> (Inl e, s)
      | Pending cache_key (Inr sample_values) \<Rightarrow>
          sample_pick w cache_key
            (s\<lparr>param_cache := (param_cache s)
                  (cache_key \<mapsto> (if sample_values = [] then [PStr ''default_if_empty'']
                                   else sample_values))\<rparr>))"

text \<open>The branch \<open>date_range\<close> (lines 60 to 65): two readings of \<open>datetime.now()\<close>.\<close>

definition date_range_param :: "world \<Rightarrow> QueryParamGeneratorConfig \<Rightarrow> executor \<Rightarrow> (exn + pyval) \<times> executor" where
  "date_range_param w cfg s =
     (let start_days = (case start_days_ago cfg of None \<Rightarrow> 30 | Some d \<Rightarrow> d);
          end_days = (case end_days_ago cfg of None \<Rightarrow> 0 | Some d \<Rightarrow> d)
      in case format_days_ago w (datetime_now w (steps s)) start_days of
           Inl e \<Rightarrow> (Inl e, tick s)
         | Inr start_date \<Rightarrow>
             (case format_days_ago w (datetime_now w (Suc (steps s))) end_days of
                Inl e \<Rightarrow> (Inl e, tick (tick s))
              | Inr end_date \<Rightarrow> (Inr (PTuple [PStr start_date, PStr end_date]), tick (tick s))))"

text \<open>
  The whole function up to its first suspension, and the function run without
  interruption (the answer of the adapter is taken up at once).
\<close>

definition param_request :: "world \<Rightarrow> QueryParamGeneratorConfig \<Rightarrow> executor \<Rightarrow> ((exn + pyval) + pending) \<times> executor" where
  "param_request w cfg s =
     (if gen_type cfg = ''random_int_from_column_range''
      then (case range_param w cfg s of (r, s') \<Rightarrow> (Inl r, s'))
      else if gen_type cfg = ''random_from_column_sample''
      then sample_request w cfg s
      else if gen_type cfg = ''date_range''
      then (case date_range_param w cfg s of (r, s') \<Rightarrow> (Inl r, s'))
      else (Inl (Inr PNone),
            emit WARNING ''Unknown param generator type: {gen_type}. Returning None.'' s))"

definition generate_query_param :: "world \<Rightarrow> QueryParamGeneratorConfig \<Rightarrow> executor \<Rightarrow> (exn + pyval) \<times> executor" where
  "generate_query_param w cfg s =
     (case param_request w cfg s of
        (Inl r, s') \<Rightarrow> (r, s')
      | (Inr p, s') \<Rightarrow> sample_resume w p s')"

subsection \<open>\_execute\_single\_query\_instance\<close>

text \<open>
  The parameter loop (lines 71 to 77): a tuple is spliced into the list, any other value
  is appended. An exception of a generator leaves the function.
\<close>

fun resolve_params :: "world \<Rightarrow> QueryParamGeneratorConfig list \<Rightarrow> pyval list \<Rightarrow> executor \<Rightarrow> (exn + pyval list) \<times> executor" where
  "resolve_params w [] params_list s = (Inr params_list, s)"
| "resolve_params w (p_gen_conf # rest) params_list s =
     (case generate_query_param w p_gen_conf s of
        (Inl e, s') \<Rightarrow> (Inl e, s')
      | (Inr param_val, s') \<Rightarrow>
          resolve_params w rest
            (case param_val of PTuple vs \<Rightarrow> params_list @ vs | _ \<Rightarrow> params_list @ [param_val]) s')"

text \<open>
  Lines 79 to 106. (Line 80 of the file stands at column 0; it is read at the indentation
  of the lines around it.) The clock is read before and after the query; the metric is
  handed to the collector whatever the result was.
\<close>

definition rows_of :: "raw_result \<Rightarrow> int option" where
  "rows_of raw_results =
     (case raw_results of
        RList rows \<Rightarrow> Some (int (length rows))
      | RInt n \<Rightarrow> Some n
      | RNone \<Rightarrow> None)"

definition log_query_execution :: "QueryExecutionMetric \<Rightarrow> executor \<Rightarrow> executor" where
  "log_query_execution query_data s =
     (emit DEBUG ''Query Metric: {query_data.query_name} took {query_data.duration_ms:.2f}ms'' s)
       \<lparr>query_log := query_log s @ [query_data]\<rparr>"

definition execute_single_query_instance :: "world \<Rightarrow> string \<Rightarrow> QueryDefinition \<Rightarrow> executor \<Rightarrow> (exn + unit) \<times> executor" where
  "execute_single_query_instance w wname query_def s =
     (case resolve_params w (param_generators query_def) [] s of
        (Inl e, s1) \<Rightarrow> (Inl e, s1)
      | (Inr params_list, s1) \<Rightarrow>
          (let start_time = perf_counter w (steps s1);
               s2 = tick s1;
               answer = execute_query w (steps s2) (template query_def) params_list;
               s3 = tick (s2\<lparr>db_calls := db_calls s2
                              @ [ExecuteQuery (template query_def) params_list]\<rparr>)
           in case answer of
                Inl e \<Rightarrow> (Inl e, s3)
              | Inr raw_results \<Rightarrow>
                  (let duration = (perf_counter w (steps s3) - start_time) * 1000;
                       s4 = tick s3;
                       ok = (raw_results \<noteq> RNone);
                       metric = \<lparr>qm_timestamp = datetime_now w (steps s4),
                                 workload_name = wname,
                                 query_name = q_name query_def,
                                 query_template = template query_def,
                                 parameters = params_list,
                                 duration_ms = duration,
                                 rows_affected_or_fetched = rows_of raw_results,
                                 success = ok\<rparr>;
                       s5 = log_query_execution metric (tick s4)
                   in if \<not> ok
                      then (Inr (), emit ERROR ''Query failed: {query_def.name} in workload {workload_name}'' s5)
                      else (Inr (), emit DEBUG ''Executed {query_def.name} in {duration_ms:.2f}ms. Params: {params_list}. Rows: {rows_affected_or_fetched}'' s5))))"

subsection \<open>\_run\_workload\_task\<close>

text \<open>
  \<^verbatim>\<open>
  weighted_queries: List[QueryDefinition] = []
  for q_def in workload_cfg.queries:
      weighted_queries.extend([q_def] * q_def.weight)
  \<close>
  \<open>[x] * w\<close> is the empty list for \<open>w \<le> 0\<close>.
\<close>

fun extend_pool :: "QueryDefinition list \<Rightarrow> QueryDefinition list \<Rightarrow> QueryDefinition list" where
  "extend_pool acc [] = acc"
| "extend_pool acc (q_def # rest) = extend_pool (acc @ replicate (nat (weight q_def)) q_def) rest"

definition weighted_queries :: "QueryDefinition list \<Rightarrow> QueryDefinition list" where
  "weighted_queries qs = extend_pool [] qs"

text \<open>
  One pass of the loop body (lines 121 to 127): the pick is outside the \<open>try\<close>, the
  execution inside it; an exception of the execution is logged and the pass ends with the
  sleep like any other. The sleep's length is one more draw of the generator.
\<close>

definition loop_body :: "world \<Rightarrow> WorkloadConfig \<Rightarrow> QueryDefinition list \<Rightarrow> executor \<Rightarrow> (exn + unit) \<times> executor" where
  "loop_body w workload_cfg pool s =
     (case py_choice pool (random_draw w (steps s)) of
        Inl e \<Rightarrow> (Inl e, tick s)
      | Inr query_to_run \<Rightarrow>
          (case execute_single_query_instance w (wl_name workload_cfg) query_to_run (tick s) of
             (Inl e, s') \<Rightarrow>
               (Inr (), tick (emit ERROR ''Exception in workload task {workload_cfg.name} for query {query_to_run.name}: {e}'' s'))
           | (Inr u, s') \<Rightarrow> (Inr (), tick s')))"

text \<open>
  The loop of lines 120 to 127. \<open>and\<close> reads the clock only when the stop event is not
  set. Nothing bounds the number of passes when the clock stands still and the event is
  never set, so the loop returns an option.
\<close>

partial_function (option) workload_loop :: "world \<Rightarrow> WorkloadConfig \<Rightarrow> QueryDefinition list \<Rightarrow> real \<Rightarrow> executor \<Rightarrow> ((exn + unit) \<times> executor) option" where
  "workload_loop w workload_cfg pool task_start_time s =
     (if stop_is_set w (steps s) then Some (Inr (), tick s)
      else if time_time w (Suc (steps s)) - task_start_time < real_of_int (duration_seconds workload_cfg)
      then (case loop_body w workload_cfg pool (tick (tick s)) of
              (Inl e, s') \<Rightarrow> Some (Inl e, s')
            | (Inr u, s') \<Rightarrow> workload_loop w workload_cfg pool task_start_time s')
      else Some (Inr (), tick (tick s)))"

definition run_workload_task :: "world \<Rightarrow> WorkloadConfig \<Rightarrow> executor \<Rightarrow> ((exn + unit) \<times> executor) option" where
  "run_workload_task w workload_cfg s =
     (let s1 = emit INFO ''Starting task for workload: {workload_cfg.name}'' s;
          pool = weighted_queries (queries workload_cfg)
      in if pool = []
         then Some (Inr (), emit WARNING ''No queries in workload {workload_cfg.name}. Task exiting.'' s1)
         else (case workload_loop w workload_cfg pool (time_time w (steps s1)) (tick s1) of
                 None \<Rightarrow> None
               | Some (Inl e, s2) \<Rightarrow> Some (Inl e, s2)
               | Some (Inr u, s2) \<Rightarrow>
                   Some (Inr (), emit INFO ''Workload task {workload_cfg.name} finished or was stopped.'' s2)))"

subsection \<open>run\_all\_workloads\<close>

text \<open>
  The tasks run concurrently on the event loop while \<open>run_all_workloads\<close> waits; how
  they interleave is the scheduler's choice. \<open>run_tasks\<close> stands for it: given the
  workloads of the created tasks and the shared state, the outcome of each task (returned
  or raised) and the state they leave. \<open>asyncio.gather(*tasks, return_exceptions=True)\<close>
  returns the outcomes as a list, exceptions as values; the source drops that list.
\<close>

datatype wait_outcome = Slept | WaitTimedOut | WaitRaised exn

definition gather_return_exceptions :: "(exn + unit) list \<Rightarrow> exn + (exn + unit) list" where
  "gather_return_exceptions outcomes = Inr outcomes"

record run_result =
  returned :: "exn + unit"
  gathered :: "(exn + unit) list"
  final :: executor

definition run_all_workloads :: "WorkloadConfig list \<Rightarrow> (WorkloadConfig list \<Rightarrow> executor \<Rightarrow> (exn + unit) list \<times> executor) \<Rightarrow> wait_outcome \<Rightarrow> executor \<Rightarrow> run_result" where
  "run_all_workloads workloads_config run_tasks waited s =
     (let s0 = s\<lparr>param_cache := Map.empty\<rparr>;
          active_workloads = filter enabled workloads_config
      in if active_workloads = []
         then \<lparr>returned = Inr (), gathered = [],
               final = emit INFO ''No enabled workloads to run.'' s0\<rparr>
         else
           (let s1 = emit INFO ''Starting all enabled workloads. Global duration: {global_duration_seconds}s.'' s0;
                tasks = concat (map (\<lambda>workload_cfg. replicate (nat (concurrency workload_cfg)) workload_cfg)
                                    active_workloads);
                s2 = (case waited of
                        WaitTimedOut \<Rightarrow> emit INFO ''Global simulation duration reached via timeout.'' s1
                      | _ \<Rightarrow> s1);
                s3 = emit INFO ''Global simulation time up. Signaling all workload tasks to stop.'' s2;
                (outcomes, s4) = run_tasks tasks s3;
                s5 = emit INFO ''All workload tasks have completed.'' s4
            in case gather_return_exceptions outcomes of
                 Inl e \<Rightarrow> \<lparr>returned = Inl e, gathered = [], final = s4\<rparr>
               | Inr results \<Rightarrow>
                   \<lparr>returned = (case waited of WaitRaised e \<Rightarrow> Inl e | _ \<Rightarrow> Inr ()),
                    gathered = results, final = s5\<rparr>))"

subsection \<open>Tasks that share the executor\<close>

text \<open>
  Tasks of one executor take turns: a task runs until it awaits, then another may run.
  For parameter resolution the turns are: a task calls \<open>_generate_query_param\<close> and runs
  to the function's return or to its \<open>await\<close> (\<open>Call\<close>); a suspended task takes up the
  adapter's answer and runs to the return (\<open>Wake\<close>).
\<close>

datatype turn = Call nat QueryParamGeneratorConfig | Wake nat

record tasks =
  shared :: executor
  waiting :: "nat \<Rightarrow> pending option"
  results :: "(nat \<times> (exn + pyval)) list"

fun take_turn :: "world \<Rightarrow> tasks \<Rightarrow> turn \<Rightarrow> tasks" where
  "take_turn w ts (Call tid cfg) =
     (case waiting ts tid of
        Some p \<Rightarrow> ts
      | None \<Rightarrow>
          (case param_request w cfg (shared ts) of
             (Inl r, s') \<Rightarrow> ts\<lparr>shared := s', results := results ts @ [(tid, r)]\<rparr>
           | (Inr p, s') \<Rightarrow> ts\<lparr>shared := s', waiting := (waiting ts)(tid \<mapsto> p)\<rparr>))"
| "take_turn w ts (Wake tid) =
     (case waiting ts tid of
        None \<Rightarrow> ts
      | Some p \<Rightarrow>
          (case sample_resume w p (shared ts) of
             (r, s') \<Rightarrow> ts\<lparr>shared := s', waiting := (waiting ts)(tid := None),
                             results := results ts @ [(tid, r)]\<rparr>))"

fun take_turns :: "world \<Rightarrow> tasks \<Rightarrow> turn list \<Rightarrow> tasks" where
  "take_turns w ts [] = ts"
| "take_turns w ts (t # rest) = take_turns w (take_turn w ts t) rest"

text \<open>
  Resolutions made one after the other, none begun before the one before it has
  returned or raised (what a single task does from pass to pass).
\<close>

fun resolve_in_turn :: "world \<Rightarrow> QueryParamGeneratorConfig list \<Rightarrow> executor \<Rightarrow> executor" where
  "resolve_in_turn w [] s = s"
| "resolve_in_turn w (cfg # rest) s = resolve_in_turn w rest (snd (generate_query_param w cfg s))"

text \<open>The number of fetches issued for a key.\<close>

definition fetches_of :: "cache_key \<Rightarrow> executor \<Rightarrow> nat" where
  "fetches_of key s =
     (case key of (g, t, c, n) \<Rightarrow> count_list (db_calls s) (GetColumnSample t c n))"

text \<open>
  Every fetch issued so far has left its key in the cache, and no key was fetched twice.
\<close>

definition fetched_once :: "executor \<Rightarrow> bool" where
  "fetched_once s =
     (\<forall>t c n. count_list (db_calls s) (GetColumnSample t c n) \<le> 1
        \<and> (count_list (db_calls s) (GetColumnSample t c n) = 1
             \<longrightarrow> param_cache s (''random_from_column_sample'', t, c, n) \<noteq> None))"

section \<open>The resource monitor (core/resource\_monitor.py)\<close>

subsection \<open>State and what the loop reads\<close>

text \<open>
  The monitor's own fields (\<open>_stop_event\<close>, \<open>_monitor_thread\<close>,
  \<open>_dbms_metric_last_run\<close>), the threads that exist (a thread handle is a number, the
  threads alive in \<open>alive\<close>, the next handle in \<open>spawned\<close>), the coroutines handed to
  \<open>asyncio.run_coroutine_threadsafe\<close> (time of dispatch, metric name, query), the records
  handed to the collector, and the logger. A dispatch queues the coroutine on the event
  loop that the loop thread creates on line 78; what a queued coroutine does when that
  loop runs it is \<open>_collect_one_dbms_metric\<close>.
\<close>

record monitor =
  stop_event :: bool
  monitor_thread :: "nat option"
  alive :: "nat set"
  spawned :: nat
  dbms_metric_last_run :: "string \<Rightarrow> real option"
  dispatched :: "(real \<times> string \<times> string) list"
  system_log :: "ResourceMetric list"
  dbms_log :: "(string, row) DBMSMetricData list"
  mon_logged :: "log_record list"

definition mon_emit :: "level \<Rightarrow> string \<Rightarrow> monitor \<Rightarrow> monitor" where
  "mon_emit lv msg m = m\<lparr>mon_logged := mon_logged m @ [(lv, msg)]\<rparr>"

text \<open>What one pass of the sampling loop reads: \<open>datetime.now()\<close>, psutil, \<open>time.time()\<close>.\<close>

record psutil_reading =
  ps_cpu_percent :: "exn + real"
  ps_memory_percent :: "exn + real"
  ps_disk_io_counters :: "exn + (int \<times> int) option"

record observation =
  obs_datetime_now :: real
  obs_psutil :: psutil_reading
  obs_time :: real

subsection \<open>\_collect\_os\_metrics\_sync\<close>

definition collect_os_metrics_sync :: "MonitoringConfig \<Rightarrow> observation \<Rightarrow> monitor \<Rightarrow> ResourceMetric option \<times> monitor" where
  "collect_os_metrics_sync cfg ob m =
     (let os_metrics_to_collect = os_metrics cfg;
          failed = (None, mon_emit ERROR ''Error collecting OS metrics: {e}'' m);
          data0 = \<lparr>rm_timestamp = obs_datetime_now ob, cpu_percent = None, memory_percent = None,
                   disk_io_read_bytes = None, disk_io_write_bytes = None\<rparr>
      in if os_metrics_to_collect = [] then (None, m)
         else
           (case (if ''cpu_percent'' \<in> set os_metrics_to_collect
                  then (case ps_cpu_percent (obs_psutil ob) of
                          Inl e \<Rightarrow> Inl e | Inr v \<Rightarrow> Inr (data0\<lparr>cpu_percent := Some v\<rparr>))
                  else Inr data0) of
              Inl e \<Rightarrow> failed
            | Inr data1 \<Rightarrow>
                (case (if ''memory_percent'' \<in> set os_metrics_to_collect
                       then (case ps_memory_percent (obs_psutil ob) of
                               Inl e \<Rightarrow> Inl e | Inr v \<Rightarrow> Inr (data1\<lparr>memory_percent := Some v\<rparr>))
                       else Inr data1) of
                   Inl e \<Rightarrow> failed
                 | Inr data2 \<Rightarrow>
                     (case (if ''disk_io_counters'' \<in> set os_metrics_to_collect
                            then (case ps_disk_io_counters (obs_psutil ob) of
                                    Inl e \<Rightarrow> Inl e
                                  | Inr None \<Rightarrow> Inr data2
                                  | Inr (Some (rd, wr)) \<Rightarrow>
                                      Inr (data2\<lparr>disk_io_read_bytes := Some rd,
                                                 disk_io_write_bytes := Some wr\<rparr>))
                            else Inr data2) of
                        Inl e \<Rightarrow> failed
                      | Inr data3 \<Rightarrow> (Some data3, m)))))"

definition log_system_metric :: "ResourceMetric \<Rightarrow> monitor \<Rightarrow> monitor" where
  "log_system_metric system_data m =
     (mon_emit DEBUG ''OS Metric: CPU {system_data.cpu_percent}%, Mem {system_data.memory_percent}%'' m)
       \<lparr>system_log := system_log m @ [system_data]\<rparr>"

definition log_dbms_metric :: "(string, row) DBMSMetricData \<Rightarrow> monitor \<Rightarrow> monitor" where
  "log_dbms_metric dbms_data m =
     (mon_emit DEBUG ''DBMS Metric: {dbms_data.metric_name} - {str(dbms_data.data)[:100]}...'' m)
       \<lparr>dbms_log := dbms_log m @ [dbms_data]\<rparr>"

subsection \<open>\_collect\_one\_dbms\_metric\<close>

text \<open>
  Lines 54 to 69. \<open>answer\<close> is what \<open>execute_query\<close> returned or raised; \<open>clock i\<close> is
  the \<open>i\<close>-th reading of \<open>datetime.now()\<close> made by this call, one per row, inside the
  loop. Iterating over an integer raises TypeError, which the handler logs.
\<close>

fun emit_rows :: "string \<Rightarrow> (nat \<Rightarrow> real) \<Rightarrow> nat \<Rightarrow> row list \<Rightarrow> monitor \<Rightarrow> monitor" where
  "emit_rows metric_cfg_name clock i [] m = m"
| "emit_rows metric_cfg_name clock i (row_data # rest) m =
     emit_rows metric_cfg_name clock (Suc i) rest
       (log_dbms_metric \<lparr>metric_name = metric_cfg_name, dm_timestamp = clock i, data = row_data\<rparr> m)"

definition collect_one_dbms_metric :: "string \<Rightarrow> string \<Rightarrow> exn + raw_result \<Rightarrow> (nat \<Rightarrow> real) \<Rightarrow> monitor \<Rightarrow> monitor" where
  "collect_one_dbms_metric metric_cfg_name query answer clock m =
     (let m1 = mon_emit DEBUG ''Collecting DBMS metric: {metric_cfg_name}'' m
      in case answer of
           Inl e \<Rightarrow> mon_emit ERROR ''Error collecting DBMS metric {metric_cfg_name}: {e}'' m1
         | Inr RNone \<Rightarrow>
             mon_emit WARNING ''Failed to fetch DBMS metric '{metric_cfg_name}'. Query returned None.'' m1
         | Inr (RList rows) \<Rightarrow> emit_rows metric_cfg_name clock 0 rows m1
         | Inr (RInt n) \<Rightarrow> mon_emit ERROR ''Error collecting DBMS metric {metric_cfg_name}: {e}'' m1)"

subsection \<open>\_monitoring\_loop\_sync\<close>

text \<open>
  The loop over the database metrics of one pass (lines 88 to 97):
  \<open>last_run = self._dbms_metric_last_run.get(metric_cfg.name, 0)\<close>.
\<close>

definition is_due :: "real \<Rightarrow> monitor \<Rightarrow> MonitoringMetricConfig \<Rightarrow> bool" where
  "is_due now m metric_cfg =
     (let last_run = (case dbms_metric_last_run m (m_name metric_cfg) of None \<Rightarrow> 0 | Some t \<Rightarrow> t)
      in now - last_run \<ge> real_of_int (frequency_seconds metric_cfg))"

fun dispatch_due :: "real \<Rightarrow> MonitoringMetricConfig list \<Rightarrow> monitor \<Rightarrow> monitor" where
  "dispatch_due now [] m = m"
| "dispatch_due now (metric_cfg # rest) m =
     dispatch_due now rest
       (if is_due now m metric_cfg
        then m\<lparr>dispatched := dispatched m @ [(now, m_name metric_cfg, m_query metric_cfg)],
               dbms_metric_last_run := (dbms_metric_last_run m)(m_name metric_cfg \<mapsto> now)\<rparr>
        else m)"

definition monitoring_pass :: "MonitoringConfig \<Rightarrow> observation \<Rightarrow> monitor \<Rightarrow> monitor" where
  "monitoring_pass cfg ob m =
     (case collect_os_metrics_sync cfg ob m of
        (os_data, m1) \<Rightarrow>
          dispatch_due (obs_time ob) (dbms_metrics cfg)
            (case os_data of None \<Rightarrow> m1 | Some d \<Rightarrow> log_system_metric d m1))"

text \<open>
  The loop runs one pass per observation while the stop event is not set, and waits the
  base interval between passes. The list holds the observations of the passes made so
  far; when it is used up the loop is still running.
\<close>

fun monitoring_passes :: "MonitoringConfig \<Rightarrow> observation list \<Rightarrow> monitor \<Rightarrow> monitor" where
  "monitoring_passes cfg [] m = m"
| "monitoring_passes cfg (ob # rest) m =
     (if stop_event m then mon_emit INFO ''Resource monitoring loop stopped.'' m
      else monitoring_passes cfg rest (monitoring_pass cfg ob m))"

text \<open>
  The function from its first line (lines 72 to 102). Before the loop, when
  \<open>'cpu_percent'\<close> is configured, \<open>psutil.cpu_percent(interval=None)\<close> is called outside
  any \<open>try\<close> (lines 74 and 75); \<open>priming\<close> is what that call returns or raises. When it
  raises, the exception leaves the function before the first pass. The event loop of
  line 78 is created and made current, and nothing in the function runs it: a pass queues
  its coroutines there, and the function executes none of them.
\<close>

definition monitoring_loop_sync :: "MonitoringConfig \<Rightarrow> exn + real \<Rightarrow> observation list \<Rightarrow> monitor \<Rightarrow> (exn + unit) \<times> monitor" where
  "monitoring_loop_sync cfg priming obs m =
     (let m0 = mon_emit INFO ''Resource monitoring loop started. Interval: {self.monitoring_config.monitoring_interval_seconds}s'' m
      in case (if ''cpu_percent'' \<in> set (os_metrics cfg) then priming else Inr 0) of
           Inl e \<Rightarrow> (Inl e, m0)
         | Inr v \<Rightarrow> (Inr (), monitoring_passes cfg obs m0))"

text \<open>
  Passes that follow each other at the base interval: pass \<open>k\<close> reads the clock at
  \<open>t0 + k * interval\<close>.
\<close>

definition on_schedule :: "MonitoringConfig \<Rightarrow> real \<Rightarrow> observation list \<Rightarrow> bool" where
  "on_schedule cfg t0 obs =
     list_all (\<lambda>k. obs_time (obs ! k) = t0 + real k * real_of_int (monitoring_interval_seconds cfg))
       [0 ..< length obs]"

subsection \<open>start\_monitoring and stop\_monitoring\<close>

definition thread_is_alive :: "monitor \<Rightarrow> bool" where
  "thread_is_alive m = (case monitor_thread m of None \<Rightarrow> False | Some t \<Rightarrow> t \<in> alive m)"

definition start_monitoring :: "MonitoringConfig \<Rightarrow> monitor \<Rightarrow> monitor" where
  "start_monitoring cfg m =
     (if thread_is_alive m then mon_emit WARNING ''Monitoring is already running.'' m
      else mon_emit INFO ''System resource monitoring started in a separate thread.''
             (m\<lparr>stop_event := False,
                dbms_metric_last_run := map_of (map (\<lambda>c. (m_name c, 0)) (dbms_metrics cfg)),
                monitor_thread := Some (spawned m),
                alive := insert (spawned m) (alive m),
                spawned := Suc (spawned m)\<rparr>))"

text \<open>
  \<open>thread.join(timeout)\<close> returns when the thread has ended or the timeout has passed.
  \<open>exit_delay\<close> is the time the loop thread takes to end once the event is set
  (\<open>None\<close>: it does not end). The result is the time waited and whether the thread ended.
\<close>

definition join_thread :: "real \<Rightarrow> real option \<Rightarrow> real \<times> bool" where
  "join_thread timeout exit_delay =
     (case exit_delay of
        None \<Rightarrow> (timeout, False)
      | Some d \<Rightarrow> if d \<le> timeout then (d, True) else (timeout, False))"

definition signal_stop :: "monitor \<Rightarrow> monitor" where
  "signal_stop m = (mon_emit INFO ''Stopping resource monitoring...'' m)\<lparr>stop_event := True\<rparr>"

definition stop_monitoring :: "real option \<Rightarrow> monitor \<Rightarrow> real \<times> monitor" where
  "stop_monitoring exit_delay m =
     (if thread_is_alive m
      then (let m1 = signal_stop m;
                (waited, ended) = join_thread 10 exit_delay;
                m2 = (if ended then m1\<lparr>alive := alive m1 - {the (monitor_thread m1)}\<rparr> else m1);
                m3 = (if thread_is_alive m2
                      then mon_emit WARNING ''Monitoring thread did not stop in time.'' m2
                      else mon_emit INFO ''Resource monitoring stopped successfully.'' m2)
            in (waited, m3\<lparr>monitor_thread := None\<rparr>))
      else (0, mon_emit INFO ''Monitoring not running or already stopped.'' m))"

text \<open>The states of the sampler, read off the monitor's fields.\<close>

datatype phase = Idle | Running | Stopping

definition phase_of :: "monitor \<Rightarrow> phase" where
  "phase_of m = (if thread_is_alive m then (if stop_event m then Stopping else Running) else Idle)"

section \<open>The metrics collector's read-back (core/metrics\_collector.py)\<close>

text \<open>
  \<open>json.loads\<close> and \<open>datetime.fromisoformat\<close> are library functions; they are
  parameters here, \<open>None\<close> standing for JSONDecodeError and ValueError. A JSON object
  is its list of members; \<open>json.loads\<close> keeps the last of several members of one name.
\<close>

datatype json = JNull | JBool bool | JNum real | JStr string | JArr "json list"
  | JObj "(string \<times> json) list"

definition dict_get :: "(string \<times> json) list \<Rightarrow> string \<Rightarrow> json option" where
  "dict_get members k = map_of (rev members) k"

datatype file_state = Missing | Unreadable | Lines "string list"

text \<open>
  One line of the loop (lines 86 to 95). The inner handler catches JSONDecodeError,
  KeyError and TypeError (\<open>Skip\<close>: a warning, the next line is read); a value without
  \<open>.get\<close> raises AttributeError and a string that is no ISO date raises ValueError, which
  only the outer handler catches (\<open>Abort\<close>).
\<close>

datatype line_result = Collect "(json, json) DBMSMetricData" | Pass | Skip | Abort

definition read_line :: "(string \<Rightarrow> json option) \<Rightarrow> (string \<Rightarrow> real option) \<Rightarrow> string option \<Rightarrow> string \<Rightarrow> line_result" where
  "read_line json_loads fromisoformat metric_name_filter line =
     (case json_loads line of
        None \<Rightarrow> Skip
      | Some (JObj entry_dict) \<Rightarrow>
          (if (case metric_name_filter of
                 None \<Rightarrow> True
               | Some f \<Rightarrow> dict_get entry_dict ''metric_name'' = Some (JStr f))
           then (case dict_get entry_dict ''metric_name'' of
                   None \<Rightarrow> Skip
                 | Some n \<Rightarrow>
                     (case dict_get entry_dict ''timestamp'' of
                        None \<Rightarrow> Skip
                      | Some (JStr ts) \<Rightarrow>
                          (case fromisoformat ts of
                             None \<Rightarrow> Abort
                           | Some t \<Rightarrow>
                               (case dict_get entry_dict ''data'' of
                                  None \<Rightarrow> Skip
                                | Some d \<Rightarrow> Collect \<lparr>metric_name = n, dm_timestamp = t, data = d\<rparr>))
                      | Some other \<Rightarrow> Skip))
           else Pass)
      | Some other \<Rightarrow> Abort)"

fun read_lines :: "(string \<Rightarrow> json option) \<Rightarrow> (string \<Rightarrow> real option) \<Rightarrow> string option \<Rightarrow> string list
    \<Rightarrow> (json, json) DBMSMetricData list \<Rightarrow> log_record list
    \<Rightarrow> (json, json) DBMSMetricData list \<times> log_record list" where
  "read_lines json_loads fromisoformat flt [] collected lg = (collected, lg)"
| "read_lines json_loads fromisoformat flt (line # rest) collected lg =
     (case read_line json_loads fromisoformat flt line of
        Collect r \<Rightarrow> read_lines json_loads fromisoformat flt rest (collected @ [r]) lg
      | Pass \<Rightarrow> read_lines json_loads fromisoformat flt rest collected lg
      | Skip \<Rightarrow> read_lines json_loads fromisoformat flt rest collected
                 (lg @ [(WARNING, ''Skipping malformed line in {self.dbms_log_path}: {line.strip()}. Error: {e}'')])
      | Abort \<Rightarrow> (collected,
                 lg @ [(ERROR, ''Error reading DBMS metrics from {self.dbms_log_path}: {e}'')]))"

definition get_collected_dbms_metrics :: "(string \<Rightarrow> json option) \<Rightarrow> (string \<Rightarrow> real option) \<Rightarrow> file_state \<Rightarrow> string option
    \<Rightarrow> (json, json) DBMSMetricData list \<times> log_record list" where
  "get_collected_dbms_metrics json_loads fromisoformat file metric_name_filter =
     (case file of
        Missing \<Rightarrow> ([], [(INFO, ''DBMS metrics file {self.dbms_log_path} not found.'')])
      | Unreadable \<Rightarrow> ([], [(ERROR, ''Error reading DBMS metrics from {self.dbms_log_path}: {e}'')])
      | Lines ls \<Rightarrow> read_lines json_loads fromisoformat metric_name_filter ls [] [])"

text \<open>
  The read-back as the specification words it: a line is a record when it parses to an
  object with a name, an ISO timestamp and data; the result is the records that the
  filter selects, in file order; every other line is skipped.
\<close>

definition record_of_line :: "(string \<Rightarrow> json option) \<Rightarrow> (string \<Rightarrow> real option) \<Rightarrow> string \<Rightarrow> (json, json) DBMSMetricData option" where
  "record_of_line json_loads fromisoformat line =
     (case json_loads line of
        Some (JObj entry_dict) \<Rightarrow>
          (case (dict_get entry_dict ''metric_name'', dict_get entry_dict ''timestamp'',
                 dict_get entry_dict ''data'') of
             (Some n, Some (JStr ts), Some d) \<Rightarrow>
               (case fromisoformat ts of
                  None \<Rightarrow> None
                | Some t \<Rightarrow> Some \<lparr>metric_name = n, dm_timestamp = t, data = d\<rparr>)
           | _ \<Rightarrow> None)
      | _ \<Rightarrow> None)"

definition selected :: "string option \<Rightarrow> (json, json) DBMSMetricData \<Rightarrow> bool" where
  "selected flt r = (case flt of None \<Rightarrow> True | Some f \<Rightarrow> metric_name r = JStr f)"

definition read_back_spec :: "(string \<Rightarrow> json option) \<Rightarrow> (string \<Rightarrow> real option) \<Rightarrow> file_state \<Rightarrow> string option
    \<Rightarrow> (json, json) DBMSMetricData list" where
  "read_back_spec json_loads fromisoformat file metric_name_filter =
     (case file of
        Lines ls \<Rightarrow>
          filter (selected metric_name_filter)
            (List.map_filter (record_of_line json_loads fromisoformat) ls)
      | _ \<Rightarrow> [])"

section \<open>Example collaborators and configurations\<close>

text \<open>
  A database with one table \<open>orders\<close> whose identity column holds the single value 42,
  a generator that returns 0, 1, 2, \<dots>, clocks that advance by one unit per reading, and
  a stop event that is never set.
\<close>

definition example_world :: world where
  "example_world =
     \<lparr>tables_metadata = [''orders'' \<mapsto> \<lparr>pk_column = ''id'', min_id = Some 42, max_id = Some 42\<rparr>],
      get_column_sample = (\<lambda>i t c n. Inr [PInt 7, PInt 8]),
      execute_query = (\<lambda>i q ps. Inr (RList [[(''n'', PInt 1)], [(''n'', PInt 2)]])),
      random_draw = (\<lambda>i. i),
      perf_counter = (\<lambda>i. real i),
      time_time = (\<lambda>i. real i),
      datetime_now = (\<lambda>i. real i),
      format_days_ago = (\<lambda>now d. Inr ''2024-01-01 00:00:00''),
      stop_is_set = (\<lambda>i. False)\<rparr>"

definition initial_executor :: executor where
  "initial_executor = \<lparr>param_cache = Map.empty, db_calls = [], query_log = [], logged = [], steps = 0\<rparr>"

definition example_query :: QueryDefinition where
  "example_query = \<lparr>q_name = ''count'', template = ''SELECT n FROM orders'', weight = 1,
                     param_generators = []\<rparr>"

definition example_workload :: WorkloadConfig where
  "example_workload = \<lparr>wl_name = ''oltp'', wl_type = ''OLTP'', enabled = True,
                        duration_seconds = 60, concurrency = 2, queries = [example_query]\<rparr>"

definition sample_config :: QueryParamGeneratorConfig where
  "sample_config = \<lparr>gen_type = ''random_from_column_sample'', table = Some ''orders'',
                     column = Some ''status'', sample_size = None,
                     start_days_ago = None, end_days_ago = None\<rparr>"

definition range_config :: QueryParamGeneratorConfig where
  "range_config = \<lparr>gen_type = ''random_int_from_column_range'', table = Some ''orders'',
                    column = Some ''id'', sample_size = None,
                    start_days_ago = None, end_days_ago = None\<rparr>"

definition initial_monitor :: monitor where
  "initial_monitor = \<lparr>stop_event = False, monitor_thread = None, alive = {}, spawned = 0,
                       dbms_metric_last_run = Map.empty, dispatched = [], system_log = [],
                       dbms_log = [], mon_logged = []\<rparr>"

text \<open>
  A sampler with one database metric of frequency 10 and base interval 1, and the
  observation of its \<open>k\<close>-th pass when the first pass reads the clock at 1000.
\<close>

definition example_monitoring :: MonitoringConfig where
  "example_monitoring =
     \<lparr>os_metrics = [],
      dbms_metrics = [\<lparr>m_name = ''wait_stats'', m_query = ''SELECT * FROM sys.dm_os_wait_stats'',
                       frequency_seconds = 10\<rparr>],
      monitoring_interval_seconds = 1\<rparr>"

definition example_observation :: "nat \<Rightarrow> observation" where
  "example_observation k =
     \<lparr>obs_datetime_now = 1000 + real k,
      obs_psutil = \<lparr>ps_cpu_percent = Inr 0, ps_memory_percent = Inr 0,
                    ps_disk_io_counters = Inr None\<rparr>,
      obs_time = 1000 + real k\<rparr>"

text \<open>
  A database-metric log of two lines, both well-formed JSON objects, the first with a
  timestamp that is no ISO date; \<open>json.loads\<close> and \<open>fromisoformat\<close> on what these
  lines hold.
\<close>

definition example_json_loads :: "string \<Rightarrow> json option" where
  "example_json_loads line =
     (if line = ''{\"metric_name\": \"wait_stats\", \"timestamp\": \"yesterday\", \"data\": {}}''
      then Some (JObj [(''metric_name'', JStr ''wait_stats''), (''timestamp'', JStr ''yesterday''),
                       (''data'', JObj [])])
      else if line = ''{\"metric_name\": \"wait_stats\", \"timestamp\": \"2024-01-01T00:00:00\", \"data\": {}}''
      then Some (JObj [(''metric_name'', JStr ''wait_stats''),
                       (''timestamp'', JStr ''2024-01-01T00:00:00''), (''data'', JObj [])])
      else None)"

definition example_fromisoformat :: "string \<Rightarrow> real option" where
  "example_fromisoformat ts = (if ts = ''2024-01-01T00:00:00'' then Some 1704067200 else None)"

section \<open>Properties of the weighted pool\<close>

lemma extend_pool_concat:
  "extend_pool acc qs = acc @ concat (map (\<lambda>q. replicate (nat (weight q)) q) qs)"
  by (induction qs arbitrary: acc) simp_all

lemma weighted_queries_concat:
  "weighted_queries qs = concat (map (\<lambda>q. replicate (nat (weight q)) q) qs)"
  by (simp add: weighted_queries_def extend_pool_concat)

lemma count_list_replicate: "count_list (replicate n x) y = (if x = y then n else 0)"
  by (induction n) auto

lemma weighted_queries_count:
  "count_list (weighted_queries qs) q = count_list qs q * nat (weight q)"
proof (induction qs)
  case Nil
  show ?case by (simp add: weighted_queries_concat)
next
  case (Cons a qs)
  then show ?case
    by (simp add: weighted_queries_concat count_list_replicate)
qed

lemma weighted_queries_length:
  "\<forall>q \<in> set qs. 0 \<le> weight q \<Longrightarrow>
     int (length (weighted_queries qs)) = sum_list (map weight qs)"
  by (induction qs) (simp_all add: weighted_queries_concat)

lemma filter_index_count:
  "length (filter (\<lambda>r. xs ! r = q) [0 ..< length xs]) = count_list xs q"
proof (induction xs rule: rev_induct)
  case Nil
  show ?case by simp
next
  case (snoc x xs)
  have "filter (\<lambda>r. (xs @ [x]) ! r = q) [0 ..< length xs]
        = filter (\<lambda>r. xs ! r = q) [0 ..< length xs]"
    by (rule filter_cong) (auto simp: nth_append)
  with snoc show ?case by simp
qed

lemma pick_probability_count:
  "pick_probability pool q = real (count_list pool q) / real (length pool)"
proof (cases "pool = []")
  case True
  then show ?thesis by (simp add: pick_probability_def)
next
  case False
  have "filter (\<lambda>r. py_choice pool r = Inr q) [0 ..< length pool]
        = filter (\<lambda>r. pool ! r = q) [0 ..< length pool]"
    using False by (intro filter_cong) (auto simp: py_choice_def)
  then show ?thesis by (simp add: pick_probability_def filter_index_count)
qed

text \<open>
  C1. The pool is the queries of the workload in order, each repeated weight-many times:
  a query that the workload lists once occurs exactly \<open>weight\<close> times in the pool, and
  the pool has \<open>\<Sum> weights\<close> entries. With every weight at least 1, a uniform pick over the pool
  returns \<open>q\<close> with probability \<open>weight(q) / \<Sum> weights\<close>.
\<close>

theorem weighted_pool_selection_probability:
  assumes "\<forall>x \<in> set qs. 1 \<le> weight x"
    and "count_list qs q = 1"
  shows "weighted_queries qs = concat (map (\<lambda>x. replicate (nat (weight x)) x) qs)
       \<and> count_list (weighted_queries qs) q = nat (weight q)
       \<and> int (length (weighted_queries qs)) = sum_list (map weight qs)
       \<and> pick_probability (weighted_queries qs) q
           = real_of_int (weight q) / real_of_int (sum_list (map weight qs))"
proof -
  have nonneg: "\<forall>x \<in> set qs. 0 \<le> weight x"
    using assms(1) by force
  have "q \<in> set qs"
    using assms(2) count_list_0_iff [of qs q] by fastforce
  then have wq: "0 \<le> weight q"
    using nonneg by blast
  have cnt: "count_list (weighted_queries qs) q = nat (weight q)"
    using assms(2) by (simp add: weighted_queries_count)
  have len: "int (length (weighted_queries qs)) = sum_list (map weight qs)"
    using nonneg by (rule weighted_queries_length)
  have "real (length (weighted_queries qs)) = real_of_int (sum_list (map weight qs))"
    using len by (metis of_int_of_nat_eq)
  moreover have "real (nat (weight q)) = real_of_int (weight q)"
    using wq by simp
  ultimately have "pick_probability (weighted_queries qs) q
      = real_of_int (weight q) / real_of_int (sum_list (map weight qs))"
    by (simp add: pick_probability_count cnt)
  with weighted_queries_concat [of qs] cnt len show ?thesis by blast
qed

theorem weighted_pool_selection_probability_witness:
  "count_list
     [\<lparr>q_name = ''read'', template = ''SELECT 1'', weight = 2, param_generators = []\<rparr>,
      \<lparr>q_name = ''write'', template = ''UPDATE t SET a = 1'', weight = 3, param_generators = []\<rparr>]
     \<lparr>q_name = ''read'', template = ''SELECT 1'', weight = 2, param_generators = []\<rparr> = 1
   \<and> pick_probability
        (weighted_queries
           [\<lparr>q_name = ''read'', template = ''SELECT 1'', weight = 2, param_generators = []\<rparr>,
            \<lparr>q_name = ''write'', template = ''UPDATE t SET a = 1'', weight = 3, param_generators = []\<rparr>])
        \<lparr>q_name = ''read'', template = ''SELECT 1'', weight = 2, param_generators = []\<rparr>
      = 2 / 5"
proof -
  let ?select = "\<lparr>q_name = ''read'', template = ''SELECT 1'', weight = 2, param_generators = []\<rparr>"
  let ?update = "\<lparr>q_name = ''write'', template = ''UPDATE t SET a = 1'', weight = 3, param_generators = []\<rparr>"
  have weights: "\<forall>x \<in> set [?select, ?update]. 1 \<le> weight x"
    by simp
  have once: "count_list [?select, ?update] ?select = 1"
    by simp
  from weighted_pool_selection_probability [OF weights once]
  have "pick_probability (weighted_queries [?select, ?update]) ?select
      = real_of_int (weight ?select) / real_of_int (sum_list (map weight [?select, ?update]))"
    by blast
  with once show ?thesis by simp
qed



section \<open>The workload executor: executions, tasks and runs\<close>

lemma emit_fields [simp]:
  "query_log (emit lv msg s) = query_log s"
  "db_calls (emit lv msg s) = db_calls s"
  "param_cache (emit lv msg s) = param_cache s"
  "steps (emit lv msg s) = steps s"
  "logged (emit lv msg s) = logged s @ [(lv, msg)]"
  by (simp_all add: emit_def)

lemma tick_fields [simp]:
  "query_log (tick s) = query_log s"
  "db_calls (tick s) = db_calls s"
  "param_cache (tick s) = param_cache s"
  "steps (tick s) = Suc (steps s)"
  "logged (tick s) = logged s"
  by (simp_all add: tick_def)

lemma range_param_query_log: "query_log (snd (range_param w cfg s)) = query_log s"
  by (simp add: range_param_def split: option.splits sum.splits exn.splits prod.splits)

lemma sample_pick_query_log: "query_log (snd (sample_pick w key s)) = query_log s"
  by (simp add: sample_pick_def split: option.splits sum.splits)

lemma sample_request_query_log: "query_log (snd (sample_request w cfg s)) = query_log s"
  by (simp add: sample_request_def Let_def case_prod_unfold sample_pick_query_log)

lemma sample_resume_query_log: "query_log (snd (sample_resume w p s)) = query_log s"
  by (cases p) (simp add: sample_resume_def sample_pick_query_log split: sum.splits)

lemma date_range_param_query_log: "query_log (snd (date_range_param w cfg s)) = query_log s"
  by (simp add: date_range_param_def Let_def split: sum.splits)

lemma param_request_query_log: "query_log (snd (param_request w cfg s)) = query_log s"
  by (simp add: param_request_def case_prod_unfold range_param_query_log
      sample_request_query_log date_range_param_query_log)

lemma generate_query_param_query_log:
  "query_log (snd (generate_query_param w cfg s)) = query_log s"
  by (simp add: generate_query_param_def case_prod_unfold param_request_query_log
      sample_resume_query_log split: sum.splits)

lemma resolve_params_query_log:
  "query_log (snd (resolve_params w gens acc s)) = query_log s"
proof (induction gens arbitrary: acc s)
  case Nil
  show ?case by simp
next
  case (Cons g gens)
  show ?case
    by (simp add: case_prod_unfold Cons.IH generate_query_param_query_log split: sum.splits)
qed



text \<open>
  C2. When the parameters resolve and the adapter returns a result (a list, an integer or
  \<open>None\<close>), one execution hands exactly one metric to the collector; with a monotonic
  performance counter its duration is not negative; it is a success exactly when the
  result is not \<open>None\<close>; its row count is the length of a list, the value of an integer,
  and absent for \<open>None\<close>.
\<close>

theorem single_execution_emits_one_metric:
  assumes params: "resolve_params w (param_generators query_def) [] s = (Inr params_list, s1)"
    and answer: "execute_query w (Suc (steps s1)) (template query_def) params_list = Inr raw_results"
    and clock: "mono (perf_counter w)"
  shows "\<exists>metric s'. execute_single_query_instance w wname query_def s = (Inr (), s')
      \<and> query_log s' = query_log s @ [metric]
      \<and> 0 \<le> duration_ms metric
      \<and> (success metric \<longleftrightarrow> raw_results \<noteq> RNone)
      \<and> rows_affected_or_fetched metric
          = (case raw_results of
               RList rows \<Rightarrow> Some (int (length rows))
             | RInt n \<Rightarrow> Some n
             | RNone \<Rightarrow> None)"
proof -
  have "perf_counter w (steps s1) \<le> perf_counter w (Suc (Suc (steps s1)))"
    using clock by (simp add: mono_def)
  moreover have "query_log s1 = query_log s"
    using resolve_params_query_log [of w "param_generators query_def" "[]" s] params by simp
  ultimately show ?thesis
    using params answer
    by (simp add: execute_single_query_instance_def Let_def log_query_execution_def rows_of_def)
qed

theorem single_execution_emits_one_metric_witness:
  "\<exists>metric s'. execute_single_query_instance example_world ''oltp'' example_query initial_executor = (Inr (), s')
      \<and> query_log s' = [metric]
      \<and> 0 \<le> duration_ms metric
      \<and> success metric
      \<and> rows_affected_or_fetched metric = Some 2"
  using single_execution_emits_one_metric
    [of example_world example_query initial_executor "[]" initial_executor
        "RList [[(''n'', PInt 1)], [(''n'', PInt 2)]]" "''oltp''"]
  by (simp add: example_world_def example_query_def initial_executor_def mono_def)

lemma loop_body_returns:
  "pool \<noteq> [] \<Longrightarrow> fst (loop_body w wl pool s) = Inr ()"
  by (simp add: loop_body_def py_choice_def split: prod.splits sum.splits)

lemma workload_loop_never_raises:
  assumes ret: "workload_loop w wl pool t0 s = Some (r, s')" and ne: "pool \<noteq> []"
  shows "r = Inr ()"
proof (rule workload_loop.raw_induct
    [where P = "\<lambda>w' wl' pool' t0' s r. pool' \<noteq> [] \<longrightarrow> fst r = Inr ()", OF _ ret, THEN mp, OF _ ne, simplified])
  fix f w wl pool t0 s r
  assume IH: "\<And>w wl pool t0 s r. f w wl pool t0 s = Some r \<Longrightarrow> pool \<noteq> [] \<longrightarrow> fst r = Inr ()"
    and eq: "(if stop_is_set w (steps s) then Some (Inr (), tick s)
      else if time_time w (Suc (steps s)) - t0 < real_of_int (duration_seconds wl)
      then (case loop_body w wl pool (tick (tick s)) of
              (Inl e, s') \<Rightarrow> Some (Inl e, s')
            | (Inr u, s') \<Rightarrow> f w wl pool t0 s')
      else Some (Inr (), tick (tick s))) = Some r"
  show "pool \<noteq> [] \<longrightarrow> fst r = Inr ()"
  proof
    assume ne: "pool \<noteq> []"
    from loop_body_returns [OF ne, of w wl "tick (tick s)"] eq IH ne
    show "fst r = Inr ()"
      by (auto split: if_splits prod.splits sum.splits)
  qed
qed


text \<open>
  C10. When the weighted pool of a workload is empty, the task returns at once: it logs two
  records and consults neither the clock nor the stop event nor the adapter, and hands no
  metric to the collector, whatever the duration and the stop event are.
\<close>

theorem empty_pool_task_returns_at_once:
  assumes "weighted_queries (queries workload_cfg) = []"
  shows "\<exists>s'. run_workload_task w workload_cfg s = Some (Inr (), s')
      \<and> query_log s' = query_log s
      \<and> db_calls s' = db_calls s
      \<and> steps s' = steps s
      \<and> logged s' = logged s
           @ [(INFO, ''Starting task for workload: {workload_cfg.name}''),
              (WARNING, ''No queries in workload {workload_cfg.name}. Task exiting.'')]"
  using assms by (simp add: run_workload_task_def Let_def)

theorem empty_pool_task_returns_at_once_witness:
  "\<exists>s'. run_workload_task example_world (example_workload\<lparr>queries := []\<rparr>) initial_executor
           = Some (Inr (), s')
      \<and> query_log s' = [] \<and> db_calls s' = [] \<and> steps s' = 0"
  using empty_pool_task_returns_at_once
    [of "example_workload\<lparr>queries := []\<rparr>" example_world initial_executor]
  by (auto simp add: weighted_queries_def example_workload_def initial_executor_def)

lemma run_workload_task_never_raises:
  assumes "run_workload_task w wl s = Some (r, s')"
  shows "r = Inr ()"
proof (cases "weighted_queries (queries wl) = []")
  case True
  with assms show ?thesis by (simp add: run_workload_task_def Let_def)
next
  case False
  let ?s1 = "emit INFO ''Starting task for workload: {workload_cfg.name}'' s"
  let ?loop = "workload_loop w wl (weighted_queries (queries wl)) (time_time w (steps ?s1)) (tick ?s1)"
  show ?thesis
  proof (cases ?loop)
    case None
    with assms False show ?thesis by (simp add: run_workload_task_def Let_def)
  next
    case (Some res)
    obtain r0 s2 where res: "res = (r0, s2)" by (cases res)
    with Some have "r0 = Inr ()"
      using workload_loop_never_raises [OF _ False] by blast
    with assms False Some res show ?thesis
      by (simp add: run_workload_task_def Let_def)
  qed
qed

lemma run_all_workloads_returned:
  "waited = Slept \<or> waited = WaitTimedOut \<Longrightarrow>
   returned (run_all_workloads cfgs run_tasks waited s) = Inr ()"
  by (auto simp add: run_all_workloads_def Let_def gather_return_exceptions_def case_prod_unfold)

lemma run_all_workloads_gathered:
  "filter enabled cfgs \<noteq> [] \<Longrightarrow>
   \<exists>s3. gathered (run_all_workloads cfgs run_tasks waited s)
          = fst (run_tasks (concat (map (\<lambda>wl. replicate (nat (concurrency wl)) wl)
                                       (filter enabled cfgs))) s3)"
  by (auto simp add: run_all_workloads_def Let_def gather_return_exceptions_def case_prod_unfold)

text \<open>
  C6. A pass of the task loop in which the execution raises logs the exception and ends
  normally, and the loop goes on from the state that pass leaves; the loop and the task
  never raise; \<open>run_all_workloads\<close> returns normally whatever the outcomes of the tasks
  are, and the outcomes, failures included, are what \<open>gather\<close> collects.
\<close>

theorem task_failures_are_not_fatal:
  assumes "pool \<noteq> []"
    and "\<not> stop_is_set w (steps s)"
    and "time_time w (Suc (steps s)) - t0 < real_of_int (duration_seconds wl)"
    and "execute_single_query_instance w (wl_name wl)
           (pool ! (random_draw w (Suc (Suc (steps s))) mod length pool)) (tick (tick (tick s)))
         = (Inl e, s1)"
  shows "loop_body w wl pool (tick (tick s))
           = (Inr (), tick (emit ERROR ''Exception in workload task {workload_cfg.name} for query {query_to_run.name}: {e}'' s1))
       \<and> workload_loop w wl pool t0 s
           = workload_loop w wl pool t0
               (tick (emit ERROR ''Exception in workload task {workload_cfg.name} for query {query_to_run.name}: {e}'' s1))
       \<and> (\<forall>r s'. workload_loop w wl pool t0 s = Some (r, s') \<longrightarrow> r = Inr ())
       \<and> (\<forall>cfg s0 r s'. run_workload_task w cfg s0 = Some (r, s') \<longrightarrow> r = Inr ())
       \<and> (\<forall>cfgs run_tasks s0.
             returned (run_all_workloads cfgs run_tasks Slept s0) = Inr ()
           \<and> returned (run_all_workloads cfgs run_tasks WaitTimedOut s0) = Inr ()
           \<and> (filter enabled cfgs \<noteq> [] \<longrightarrow>
                (\<exists>s3. gathered (run_all_workloads cfgs run_tasks Slept s0)
                   = fst (run_tasks (concat (map (\<lambda>wl. replicate (nat (concurrency wl)) wl)
                                                (filter enabled cfgs))) s3))))"
proof -
  have body: "loop_body w wl pool (tick (tick s))
      = (Inr (), tick (emit ERROR ''Exception in workload task {workload_cfg.name} for query {query_to_run.name}: {e}'' s1))"
    using assms(1,4) by (simp add: loop_body_def py_choice_def)
  have loop: "workload_loop w wl pool t0 s
      = workload_loop w wl pool t0
          (tick (emit ERROR ''Exception in workload task {workload_cfg.name} for query {query_to_run.name}: {e}'' s1))"
    using assms(2,3) by (subst workload_loop.simps) (simp add: body)
  have never: "\<forall>r s'. workload_loop w wl pool t0 s = Some (r, s') \<longrightarrow> r = Inr ()"
    using workload_loop_never_raises [OF _ assms(1)] by blast
  have task: "\<forall>cfg s0 r s'. run_workload_task w cfg s0 = Some (r, s') \<longrightarrow> r = Inr ()"
    using run_workload_task_never_raises by blast
  have ra: "\<forall>cfgs run_tasks s0.
             returned (run_all_workloads cfgs run_tasks Slept s0) = Inr ()
           \<and> returned (run_all_workloads cfgs run_tasks WaitTimedOut s0) = Inr ()
           \<and> (filter enabled cfgs \<noteq> [] \<longrightarrow>
                (\<exists>s3. gathered (run_all_workloads cfgs run_tasks Slept s0)
                   = fst (run_tasks (concat (map (\<lambda>wl. replicate (nat (concurrency wl)) wl)
                                                (filter enabled cfgs))) s3)))"
    using run_all_workloads_gathered by (simp add: run_all_workloads_returned)
  from body loop never task ra show ?thesis
    by (intro conjI)
qed

theorem task_failures_are_not_fatal_witness:
  "fst (loop_body (example_world\<lparr>execute_query := (\<lambda>i q ps. Inl ConnectionError)\<rparr>)
          example_workload [example_query] (tick (tick initial_executor))) = Inr ()
   \<and> returned (run_all_workloads [example_workload]
        (\<lambda>ts s. (map (\<lambda>t. Inl ConnectionError) ts, s)) Slept initial_executor) = Inr ()"
  using task_failures_are_not_fatal
    [of "[example_query]" "example_world\<lparr>execute_query := (\<lambda>i q ps. Inl ConnectionError)\<rparr>"
        initial_executor 0 example_workload ConnectionError
        "snd (execute_single_query_instance
               (example_world\<lparr>execute_query := (\<lambda>i q ps. Inl ConnectionError)\<rparr>)
               ''oltp'' example_query (tick (tick (tick initial_executor))))"]
  by (simp add: example_world_def example_workload_def example_query_def initial_executor_def
      execute_single_query_instance_def Let_def tick_def)




section \<open>Parameter generators\<close>

lemma py_randint_unique_draw:
  assumes "a \<le> v" "v \<le> b"
  shows "\<exists>!r. r < nat (b - a + 1) \<and> py_randint a b r = Inr v"
proof
  show "nat (v - a) < nat (b - a + 1) \<and> py_randint a b (nat (v - a)) = Inr v"
    using assms by (simp add: py_randint_def)
next
  fix r
  assume "r < nat (b - a + 1) \<and> py_randint a b r = Inr v"
  then show "r = nat (v - a)"
    using assms by (auto simp add: py_randint_def)
qed

lemma py_randint_range:
  "a \<le> b \<Longrightarrow> \<exists>v. py_randint a b r = Inr v \<and> a \<le> v \<and> v \<le> b"
proof -
  assume ab: "a \<le> b"
  have "r mod nat (b - a + 1) < nat (b - a + 1)"
    using ab by simp
  then have "int (r mod nat (b - a + 1)) \<le> b - a"
    using ab by linarith
  then show ?thesis using ab by (simp add: py_randint_def)
qed

lemma py_randint_constant: "py_randint a a r = Inr a"
  by (simp add: py_randint_def)

text \<open>
  The claim C4 as it is stated fails where the generator names a table but no column: the
  guard of line 31 returns 1 although the table's bounds are both 42.
\<close>

theorem range_without_column_counterexample:
  "tables_metadata example_world ''orders''
     = Some \<lparr>pk_column = ''id'', min_id = Some 42, max_id = Some 42\<rparr>
   \<and> fst (generate_query_param example_world (range_config\<lparr>column := None\<rparr>) initial_executor)
     = Inr (PInt 1)"
  by (simp add: generate_query_param_def param_request_def range_param_def range_config_def
      example_world_def truthy_def)

text \<open>
  C4, amended. For a range-from-table generator whose table and column are both given:
  with both bounds present and equal the result is that constant; with both present and
  \<open>min < max\<close> the result is \<open>random.randint(min, max)\<close>, an integer in \<open>[min, max]\<close>,
  and every integer of that interval comes from exactly one draw below \<open>max - min + 1\<close>
  (the pick is uniform). When the table or the column is missing, when the table has no
  metadata, when a bound is absent, or when \<open>min > max\<close>, the result is 1 and one warning
  is logged. The resolution never raises.
\<close>

theorem range_from_table_resolution:
  assumes "gen_type cfg = ''random_int_from_column_range''"
  shows "(truthy (table cfg) \<and> truthy (column cfg)
          \<and> tables_metadata w (the (table cfg)) = Some meta
          \<and> min_id meta = Some lo \<and> max_id meta = Some hi \<and> lo = hi
          \<longrightarrow> fst (generate_query_param w cfg s) = Inr (PInt lo))
       \<and> (truthy (table cfg) \<and> truthy (column cfg)
          \<and> tables_metadata w (the (table cfg)) = Some meta
          \<and> min_id meta = Some lo \<and> max_id meta = Some hi \<and> lo < hi
          \<longrightarrow> (\<exists>v. fst (generate_query_param w cfg s) = Inr (PInt v) \<and> lo \<le> v \<and> v \<le> hi
                   \<and> py_randint lo hi (random_draw w (steps s)) = Inr v)
              \<and> (\<forall>v. lo \<le> v \<and> v \<le> hi
                     \<longrightarrow> (\<exists>!r. r < nat (hi - lo + 1) \<and> py_randint lo hi r = Inr v)))
       \<and> (\<not> truthy (table cfg) \<or> \<not> truthy (column cfg)
          \<or> tables_metadata w (the (table cfg)) = None
          \<or> (\<exists>m. tables_metadata w (the (table cfg)) = Some m
                 \<and> (min_id m = None \<or> max_id m = None
                      \<or> (\<exists>a b. min_id m = Some a \<and> max_id m = Some b \<and> b < a)))
          \<longrightarrow> fst (generate_query_param w cfg s) = Inr (PInt 1)
              \<and> (\<exists>msg. logged (snd (generate_query_param w cfg s)) = logged s @ [(WARNING, msg)]))
       \<and> (\<exists>v. fst (generate_query_param w cfg s) = Inr v)"
proof -
  have eq: "generate_query_param w cfg s = range_param w cfg s"
    using assms by (simp add: generate_query_param_def param_request_def split: prod.splits sum.splits)
  have c1: "truthy (table cfg) \<and> truthy (column cfg)
          \<and> tables_metadata w (the (table cfg)) = Some meta
          \<and> min_id meta = Some lo \<and> max_id meta = Some hi \<and> lo = hi
          \<longrightarrow> fst (range_param w cfg s) = Inr (PInt lo)"
    by (simp add: range_param_def py_randint_constant)
  have c2: "truthy (table cfg) \<and> truthy (column cfg)
          \<and> tables_metadata w (the (table cfg)) = Some meta
          \<and> min_id meta = Some lo \<and> max_id meta = Some hi \<and> lo < hi
          \<longrightarrow> (\<exists>v. fst (range_param w cfg s) = Inr (PInt v) \<and> lo \<le> v \<and> v \<le> hi
                   \<and> py_randint lo hi (random_draw w (steps s)) = Inr v)"
  proof (intro impI)
    assume h: "truthy (table cfg) \<and> truthy (column cfg)
          \<and> tables_metadata w (the (table cfg)) = Some meta
          \<and> min_id meta = Some lo \<and> max_id meta = Some hi \<and> lo < hi"
    then have "lo \<le> hi" by simp
    from py_randint_range [OF this, of "random_draw w (steps s)"]
    obtain v where v: "py_randint lo hi (random_draw w (steps s)) = Inr v" "lo \<le> v" "v \<le> hi"
      by blast
    with h have "fst (range_param w cfg s) = Inr (PInt v)"
      by (simp add: range_param_def)
    with v show "\<exists>v. fst (range_param w cfg s) = Inr (PInt v) \<and> lo \<le> v \<and> v \<le> hi
                   \<and> py_randint lo hi (random_draw w (steps s)) = Inr v"
      by blast
  qed
  have c3: "\<forall>v. lo \<le> v \<and> v \<le> hi
                     \<longrightarrow> (\<exists>!r. r < nat (hi - lo + 1) \<and> py_randint lo hi r = Inr v)"
    using py_randint_unique_draw by blast
  have c4: "\<not> truthy (table cfg) \<or> \<not> truthy (column cfg)
          \<or> tables_metadata w (the (table cfg)) = None
          \<or> (\<exists>m. tables_metadata w (the (table cfg)) = Some m
                 \<and> (min_id m = None \<or> max_id m = None
                      \<or> (\<exists>a b. min_id m = Some a \<and> max_id m = Some b \<and> b < a)))
          \<longrightarrow> fst (range_param w cfg s) = Inr (PInt 1)
              \<and> (\<exists>msg. logged (snd (range_param w cfg s)) = logged s @ [(WARNING, msg)])"
    by (auto simp add: range_param_def py_randint_def split: option.splits)
  have c5: "\<exists>v. fst (range_param w cfg s) = Inr v"
    by (auto simp add: range_param_def py_randint_def split: option.splits sum.splits exn.splits)
  from c1 c2 c3 c4 c5 show ?thesis
    unfolding eq by blast
qed

theorem range_from_table_resolution_witness:
  "fst (generate_query_param example_world range_config initial_executor) = Inr (PInt 42)
   \<and> fst (generate_query_param example_world (range_config\<lparr>table := Some ''customers''\<rparr>)
            initial_executor) = Inr (PInt 1)"
  using range_from_table_resolution
    [of range_config example_world "\<lparr>pk_column = ''id'', min_id = Some 42, max_id = Some 42\<rparr>"
        42 42 initial_executor]
    range_from_table_resolution
    [of "range_config\<lparr>table := Some ''customers''\<rparr>" example_world
        "\<lparr>pk_column = ''id'', min_id = Some 42, max_id = Some 42\<rparr>" 42 42 initial_executor]
  by (simp add: range_config_def example_world_def truthy_def)




section \<open>The sample cache\<close>

lemma range_param_frame:
  "db_calls (snd (range_param w cfg s)) = db_calls s
   \<and> param_cache (snd (range_param w cfg s)) = param_cache s"
  by (simp add: range_param_def split: option.splits sum.splits exn.splits prod.splits)

lemma date_range_param_frame:
  "db_calls (snd (date_range_param w cfg s)) = db_calls s
   \<and> param_cache (snd (date_range_param w cfg s)) = param_cache s"
  by (simp add: date_range_param_def Let_def split: sum.splits)

lemma sample_pick_frame:
  "db_calls (snd (sample_pick w key s)) = db_calls s
   \<and> param_cache (snd (sample_pick w key s)) = param_cache s"
  by (simp add: sample_pick_def split: option.splits sum.splits)

lemma sample_pick_result:
  "param_cache s key = Some xs \<Longrightarrow>
   fst (sample_pick w key s)
     = Inr (if xs = [] then PStr ''default_sample_value''
            else xs ! (random_draw w (steps s) mod length xs))"
  by (simp add: sample_pick_def py_choice_def)

text \<open>A resolution of another kind, or one that finds its key, leaves log and cache alone.\<close>

lemma generate_query_param_other:
  "gen_type cfg \<noteq> ''random_from_column_sample'' \<Longrightarrow>
   db_calls (snd (generate_query_param w cfg s)) = db_calls s
   \<and> param_cache (snd (generate_query_param w cfg s)) = param_cache s"
  by (simp add: generate_query_param_def param_request_def case_prod_unfold
      range_param_frame date_range_param_frame)

lemma generate_query_param_ungiven:
  "gen_type cfg = ''random_from_column_sample'' \<Longrightarrow>
   \<not> truthy (table cfg) \<or> \<not> truthy (column cfg) \<Longrightarrow>
   db_calls (snd (generate_query_param w cfg s)) = db_calls s
   \<and> param_cache (snd (generate_query_param w cfg s)) = param_cache s"
  by (auto simp add: generate_query_param_def param_request_def sample_request_def)

lemma generate_query_param_hit:
  assumes "gen_type cfg = ''random_from_column_sample''"
    and "truthy (table cfg)" and "truthy (column cfg)"
    and "param_cache s (cache_key_of cfg) = Some xs"
  shows "db_calls (snd (generate_query_param w cfg s)) = db_calls s
   \<and> param_cache (snd (generate_query_param w cfg s)) = param_cache s
   \<and> fst (generate_query_param w cfg s)
       = Inr (if xs = [] then PStr ''default_sample_value''
              else xs ! (random_draw w (steps s) mod length xs))"
  using assms sample_pick_result [of s "cache_key_of cfg" xs w]
  by (simp add: generate_query_param_def param_request_def sample_request_def Let_def
      case_prod_unfold sample_pick_frame)

lemma generate_query_param_miss:
  assumes "gen_type cfg = ''random_from_column_sample''"
    and "truthy (table cfg)" and "truthy (column cfg)"
    and "param_cache s (cache_key_of cfg) = None"
    and "get_column_sample w (steps s) (the (table cfg)) (the (column cfg)) (effective_sample_size cfg)
           = Inr vs"
  shows "db_calls (snd (generate_query_param w cfg s))
           = db_calls s @ [GetColumnSample (the (table cfg)) (the (column cfg)) (effective_sample_size cfg)]
   \<and> param_cache (snd (generate_query_param w cfg s))
       = (param_cache s)(cache_key_of cfg \<mapsto> (if vs = [] then [PStr ''default_if_empty''] else vs))
   \<and> fst (generate_query_param w cfg s)
       = Inr ((if vs = [] then [PStr ''default_if_empty''] else vs)
               ! (random_draw w (Suc (steps s))
                    mod length (if vs = [] then [PStr ''default_if_empty''] else vs)))"
proof -
  let ?stored = "if vs = [] then [PStr ''default_if_empty''] else vs"
  let ?s1 = "tick (s\<lparr>db_calls := db_calls s
      @ [GetColumnSample (the (table cfg)) (the (column cfg)) (effective_sample_size cfg)]\<rparr>)"
  let ?s2 = "?s1\<lparr>param_cache := (param_cache ?s1)(cache_key_of cfg \<mapsto> ?stored)\<rparr>"
  have g: "generate_query_param w cfg s = sample_pick w (cache_key_of cfg) ?s2"
    using assms
    by (simp add: generate_query_param_def param_request_def sample_request_def Let_def
        sample_resume_def)
  have "param_cache ?s2 (cache_key_of cfg) = Some ?stored"
    by simp
  from sample_pick_result [OF this, of w] sample_pick_frame [of w "cache_key_of cfg" ?s2]
  show ?thesis
    unfolding g by (simp add: tick_def)
qed

lemma fetched_once_step:
  assumes returns: "\<forall>i t c n. \<exists>vs. get_column_sample w i t c n = Inr vs"
    and inv: "fetched_once s"
  shows "fetched_once (snd (generate_query_param w cfg s))"
proof (cases "gen_type cfg = ''random_from_column_sample'' \<and> truthy (table cfg) \<and> truthy (column cfg)
    \<and> param_cache s (cache_key_of cfg) = None")
  case False
  then have "db_calls (snd (generate_query_param w cfg s)) = db_calls s
     \<and> param_cache (snd (generate_query_param w cfg s)) = param_cache s"
    using generate_query_param_other [of cfg w s] generate_query_param_ungiven [of cfg w s]
      generate_query_param_hit [of cfg s _ w]
    by (cases "param_cache s (cache_key_of cfg)") auto
  with inv show ?thesis by (simp add: fetched_once_def)
next
  case True
  let ?t = "the (table cfg)" and ?c = "the (column cfg)" and ?n = "effective_sample_size cfg"
  from returns obtain vs where vs: "get_column_sample w (steps s) ?t ?c ?n = Inr vs"
    by blast
  from True have key: "cache_key_of cfg = (''random_from_column_sample'', ?t, ?c, ?n)"
    by (simp add: cache_key_of_def)
  from generate_query_param_miss [OF _ _ _ _ vs] True
  have eff: "db_calls (snd (generate_query_param w cfg s)) = db_calls s @ [GetColumnSample ?t ?c ?n]"
    "param_cache (snd (generate_query_param w cfg s))
       = (param_cache s)(cache_key_of cfg \<mapsto> (if vs = [] then [PStr ''default_if_empty''] else vs))"
    by simp_all
  from inv True key have zero: "count_list (db_calls s) (GetColumnSample ?t ?c ?n) = 0"
    unfolding fetched_once_def
    by (metis le_neq_implies_less less_one)
  show ?thesis
    unfolding fetched_once_def eff key
  proof (intro allI)
    fix t c n
    show "count_list (db_calls s @ [GetColumnSample ?t ?c ?n]) (GetColumnSample t c n) \<le> 1
      \<and> (count_list (db_calls s @ [GetColumnSample ?t ?c ?n]) (GetColumnSample t c n) = 1
         \<longrightarrow> ((param_cache s)((''random_from_column_sample'', ?t, ?c, ?n)
                 \<mapsto> (if vs = [] then [PStr ''default_if_empty''] else vs)))
               (''random_from_column_sample'', t, c, n) \<noteq> None)"
      using inv zero unfolding fetched_once_def
      by (cases "t = ?t \<and> c = ?c \<and> n = ?n") auto
  qed
qed

lemma fetched_once_resolve_in_turn:
  assumes "\<forall>i t c n. \<exists>vs. get_column_sample w i t c n = Inr vs"
  shows "fetched_once s \<Longrightarrow> fetched_once (resolve_in_turn w cfgs s)"
proof (induction cfgs arbitrary: s)
  case Nil
  then show ?case by simp
next
  case (Cons cfg cfgs)
  from fetched_once_step [OF assms Cons.prems]
  have "fetched_once (snd (generate_query_param w cfg s))" .
  then show ?case using Cons.IH by simp
qed

lemma fetched_once_frame:
  "db_calls s' = db_calls s \<Longrightarrow> param_cache s' = param_cache s \<Longrightarrow>
   fetched_once s' = fetched_once s"
  by (simp add: fetched_once_def)

lemma fetched_once_execute:
  "db_calls s' = db_calls s @ [ExecuteQuery q ps] \<Longrightarrow> param_cache s' = param_cache s \<Longrightarrow>
   fetched_once s' = fetched_once s"
  by (simp add: fetched_once_def)

lemma fetched_once_resolve_params:
  assumes "\<forall>i t c n. \<exists>vs. get_column_sample w i t c n = Inr vs"
  shows "fetched_once s \<Longrightarrow> fetched_once (snd (resolve_params w gens acc s))"
proof (induction gens arbitrary: acc s)
  case Nil
  then show ?case by simp
next
  case (Cons g gens)
  from fetched_once_step [OF assms Cons.prems, of g]
  have step: "fetched_once (snd (generate_query_param w g s))" .
  show ?case
  proof (cases "fst (generate_query_param w g s)")
    case (Inl e)
    with step show ?thesis by (simp add: case_prod_unfold)
  next
    case (Inr v)
    with Cons.IH [OF step] show ?thesis by (simp add: case_prod_unfold)
  qed
qed

lemma fetched_once_execute_single:
  assumes "\<forall>i t c n. \<exists>vs. get_column_sample w i t c n = Inr vs"
    and "fetched_once s"
  shows "fetched_once (snd (execute_single_query_instance w wname q s))"
proof -
  let ?r = "resolve_params w (param_generators q) [] s"
  from fetched_once_resolve_params [OF assms, of "param_generators q" "[]"]
  have s1: "fetched_once (snd ?r)" .
  show ?thesis
  proof (cases "fst ?r")
    case (Inl e)
    with s1 show ?thesis
      by (simp add: execute_single_query_instance_def case_prod_unfold)
  next
    case (Inr ps)
    let ?s3 = "tick ((tick (snd ?r))\<lparr>db_calls := db_calls (tick (snd ?r)) @ [ExecuteQuery (template q) ps]\<rparr>)"
    have s3: "fetched_once ?s3"
      using s1 fetched_once_execute [of ?s3 "snd ?r" "template q" ps] by simp
    have "db_calls (snd (execute_single_query_instance w wname q s)) = db_calls ?s3
        \<and> param_cache (snd (execute_single_query_instance w wname q s)) = param_cache ?s3"
      using Inr
      by (simp add: execute_single_query_instance_def case_prod_unfold Let_def
          log_query_execution_def split: sum.splits)
    with s3 show ?thesis
      using fetched_once_frame by blast
  qed
qed

lemma fetched_once_loop_body:
  assumes "\<forall>i t c n. \<exists>vs. get_column_sample w i t c n = Inr vs"
    and "fetched_once s"
  shows "fetched_once (snd (loop_body w wl pool s))"
proof (cases "py_choice pool (random_draw w (steps s))")
  case (Inl e)
  with assms(2) show ?thesis
    using fetched_once_frame [of "tick s" s] by (simp add: loop_body_def)
next
  case (Inr q)
  have t: "fetched_once (tick s)"
    using assms(2) fetched_once_frame [of "tick s" s] by simp
  let ?x = "execute_single_query_instance w (wl_name wl) q (tick s)"
  from fetched_once_execute_single [OF assms(1) t, of "wl_name wl" q]
  have x: "fetched_once (snd ?x)" .
  have "db_calls (snd (loop_body w wl pool s)) = db_calls (snd ?x)
      \<and> param_cache (snd (loop_body w wl pool s)) = param_cache (snd ?x)"
    using Inr by (simp add: loop_body_def case_prod_unfold split: sum.splits)
  with x show ?thesis
    using fetched_once_frame by blast
qed

lemma fetched_once_workload_loop:
  assumes ret: "workload_loop w wl pool t0 s = Some (r, s')"
    and returns: "\<forall>i t c n. \<exists>vs. get_column_sample w i t c n = Inr vs"
    and inv: "fetched_once s"
  shows "fetched_once s'"
proof -
  have "(\<forall>i t c n. \<exists>vs. get_column_sample w i t c n = Inr vs) \<and> fetched_once s
        \<longrightarrow> fetched_once (snd (r, s'))"
  proof (rule workload_loop.raw_induct
      [where P = "\<lambda>w wl pool t0 s res.
          (\<forall>i t c n. \<exists>vs. get_column_sample w i t c n = Inr vs) \<and> fetched_once s
            \<longrightarrow> fetched_once (snd res)", OF _ ret])
    fix f w wl pool t0 s res
    assume IH: "\<And>w wl pool t0 s res. f w wl pool t0 s = Some res \<Longrightarrow>
        (\<forall>i t c n. \<exists>vs. get_column_sample w i t c n = Inr vs) \<and> fetched_once s
            \<longrightarrow> fetched_once (snd res)"
      and eq: "(if stop_is_set w (steps s) then Some (Inr (), tick s)
        else if time_time w (Suc (steps s)) - t0 < real_of_int (duration_seconds wl)
        then (case loop_body w wl pool (tick (tick s)) of
                (Inl e, s') \<Rightarrow> Some (Inl e, s')
              | (Inr u, s') \<Rightarrow> f w wl pool t0 s')
        else Some (Inr (), tick (tick s))) = Some res"
    show "(\<forall>i t c n. \<exists>vs. get_column_sample w i t c n = Inr vs) \<and> fetched_once s
            \<longrightarrow> fetched_once (snd res)"
    proof
      assume h: "(\<forall>i t c n. \<exists>vs. get_column_sample w i t c n = Inr vs) \<and> fetched_once s"
      then have t1: "fetched_once (tick s)" and t2: "fetched_once (tick (tick s))"
        using fetched_once_frame [of "tick s" s] fetched_once_frame [of "tick (tick s)" s]
        by simp_all
      from h t2 have body: "fetched_once (snd (loop_body w wl pool (tick (tick s))))"
        using fetched_once_loop_body by blast
      show "fetched_once (snd res)"
      proof (cases "stop_is_set w (steps s)")
        case True
        with eq t1 show ?thesis by auto
      next
        case False
        show ?thesis
        proof (cases "time_time w (Suc (steps s)) - t0 < real_of_int (duration_seconds wl)")
          case out: False
          with False eq t2 show ?thesis by auto
        next
          case True
          obtain b sb where b: "loop_body w wl pool (tick (tick s)) = (b, sb)"
            by (cases "loop_body w wl pool (tick (tick s))")
          with body have sb: "fetched_once sb" by simp
          show ?thesis
          proof (cases b)
            case (Inl e)
            with False True eq b sb show ?thesis by auto
          next
            case (Inr u)
            with False True eq b have "f w wl pool t0 sb = Some res" by simp
            from IH [OF this] h sb show ?thesis by blast
          qed
        qed
      qed
    qed
  qed
  with returns inv show ?thesis by simp
qed

lemma fetched_once_run_workload_task:
  assumes ret: "run_workload_task w wl s = Some (r, s')"
    and returns: "\<forall>i t c n. \<exists>vs. get_column_sample w i t c n = Inr vs"
    and inv: "fetched_once s"
  shows "fetched_once s'"
proof (cases "weighted_queries (queries wl) = []")
  case True
  with ret have "db_calls s' = db_calls s \<and> param_cache s' = param_cache s"
    by (auto simp add: run_workload_task_def Let_def)
  with inv show ?thesis using fetched_once_frame by blast
next
  case False
  let ?s1 = "emit INFO ''Starting task for workload: {workload_cfg.name}'' s"
  let ?loop = "workload_loop w wl (weighted_queries (queries wl)) (time_time w (steps ?s1)) (tick ?s1)"
  have s1: "fetched_once (tick ?s1)"
    using inv fetched_once_frame [of "tick ?s1" s] by simp
  show ?thesis
  proof (cases ?loop)
    case None
    with ret False show ?thesis by (simp add: run_workload_task_def Let_def)
  next
    case (Some res)
    obtain r0 s2 where res: "res = (r0, s2)" by (cases res)
    from fetched_once_workload_loop [OF _ returns s1] Some res
    have s2: "fetched_once s2" by blast
    have "db_calls s' = db_calls s2 \<and> param_cache s' = param_cache s2"
      using ret False Some res
      by (cases r0) (auto simp add: run_workload_task_def Let_def)
    with s2 show ?thesis using fetched_once_frame by blast
  qed
qed

text \<open>
  The claim C5 as it is stated fails for tasks that share the executor: two tasks that
  resolve the same generator both find the cache empty before either has stored its
  fetch (the first is suspended on line 52 when the second reaches line 51), and the key
  is fetched twice in one run.
\<close>

theorem concurrent_miss_fetches_twice_counterexample:
  "fetches_of (cache_key_of sample_config)
     (shared (take_turns example_world
                \<lparr>shared = initial_executor, waiting = Map.empty, results = []\<rparr>
                [Call 0 sample_config, Call 1 sample_config, Wake 0, Wake 1])) = 2"
  by (simp add: fetches_of_def cache_key_of_def effective_sample_size_def sample_config_def
      param_request_def sample_request_def sample_resume_def sample_pick_def py_choice_def
      truthy_def example_world_def initial_executor_def Let_def tick_def)

text \<open>
  C5, amended. For resolutions made one after the other (none begun while another is
  suspended on its fetch), from the start of a run, with an adapter whose fetch returns:
  no key is fetched more than once, in any such sequence of resolutions and in the whole
  of a task that runs alone. A resolution that finds its key in the cache issues no
  fetch, leaves the cache as it is and returns an element of the cached list; a resolution
  that misses issues exactly one fetch, stores the fetched list (the one-element fallback
  list when the fetch is empty) under the key and returns an element of the stored list.
\<close>

theorem sample_cache_fetches_once_in_turn:
  assumes "\<forall>i t c n. \<exists>vs. get_column_sample w i t c n = Inr vs"
    and "db_calls s0 = []"
    and "gen_type cfg = ''random_from_column_sample''"
    and "truthy (table cfg)" and "truthy (column cfg)"
  shows "fetches_of key (resolve_in_turn w cfgs s0) \<le> 1
    \<and> (\<forall>wl r s'. run_workload_task w wl s0 = Some (r, s') \<longrightarrow> fetches_of key s' \<le> 1)
    \<and> (\<forall>xs. param_cache s (cache_key_of cfg) = Some xs \<longrightarrow>
          db_calls (snd (generate_query_param w cfg s)) = db_calls s
        \<and> param_cache (snd (generate_query_param w cfg s)) = param_cache s
        \<and> fst (generate_query_param w cfg s)
            = Inr (if xs = [] then PStr ''default_sample_value''
                   else xs ! (random_draw w (steps s) mod length xs)))
    \<and> (param_cache s (cache_key_of cfg) = None \<longrightarrow>
         (\<exists>vs. get_column_sample w (steps s) (the (table cfg)) (the (column cfg))
                  (effective_sample_size cfg) = Inr vs
             \<and> db_calls (snd (generate_query_param w cfg s))
                 = db_calls s @ [GetColumnSample (the (table cfg)) (the (column cfg))
                                   (effective_sample_size cfg)]
             \<and> param_cache (snd (generate_query_param w cfg s))
                 = (param_cache s)(cache_key_of cfg
                      \<mapsto> (if vs = [] then [PStr ''default_if_empty''] else vs))
             \<and> fst (generate_query_param w cfg s)
                 = Inr ((if vs = [] then [PStr ''default_if_empty''] else vs)
                         ! (random_draw w (Suc (steps s))
                              mod length (if vs = [] then [PStr ''default_if_empty''] else vs)))))"
proof -
  have start: "fetched_once s0"
    using assms(2) by (simp add: fetched_once_def)
  from fetched_once_resolve_in_turn [OF assms(1) start, of cfgs]
  have once: "fetches_of key (resolve_in_turn w cfgs s0) \<le> 1"
    by (cases key) (simp add: fetches_of_def fetched_once_def)
  have task: "\<forall>wl r s'. run_workload_task w wl s0 = Some (r, s') \<longrightarrow> fetches_of key s' \<le> 1"
  proof (intro allI impI)
    fix wl r s'
    assume "run_workload_task w wl s0 = Some (r, s')"
    from fetched_once_run_workload_task [OF this assms(1) start]
    show "fetches_of key s' \<le> 1"
      by (cases key) (simp add: fetches_of_def fetched_once_def)
  qed
  have hit: "\<forall>xs. param_cache s (cache_key_of cfg) = Some xs \<longrightarrow>
          db_calls (snd (generate_query_param w cfg s)) = db_calls s
        \<and> param_cache (snd (generate_query_param w cfg s)) = param_cache s
        \<and> fst (generate_query_param w cfg s)
            = Inr (if xs = [] then PStr ''default_sample_value''
                   else xs ! (random_draw w (steps s) mod length xs))"
    using generate_query_param_hit [OF assms(3,4,5)] by blast
  have miss: "param_cache s (cache_key_of cfg) = None \<longrightarrow>
         (\<exists>vs. get_column_sample w (steps s) (the (table cfg)) (the (column cfg))
                  (effective_sample_size cfg) = Inr vs
             \<and> db_calls (snd (generate_query_param w cfg s))
                 = db_calls s @ [GetColumnSample (the (table cfg)) (the (column cfg))
                                   (effective_sample_size cfg)]
             \<and> param_cache (snd (generate_query_param w cfg s))
                 = (param_cache s)(cache_key_of cfg
                      \<mapsto> (if vs = [] then [PStr ''default_if_empty''] else vs))
             \<and> fst (generate_query_param w cfg s)
                 = Inr ((if vs = [] then [PStr ''default_if_empty''] else vs)
                         ! (random_draw w (Suc (steps s))
                              mod length (if vs = [] then [PStr ''default_if_empty''] else vs))))"
  proof
    assume none: "param_cache s (cache_key_of cfg) = None"
    from assms(1) obtain vs where
      vs: "get_column_sample w (steps s) (the (table cfg)) (the (column cfg))
             (effective_sample_size cfg) = Inr vs"
      by blast
    from generate_query_param_miss [OF assms(3,4,5) none vs] vs
    show "\<exists>vs. get_column_sample w (steps s) (the (table cfg)) (the (column cfg))
                  (effective_sample_size cfg) = Inr vs
             \<and> db_calls (snd (generate_query_param w cfg s))
                 = db_calls s @ [GetColumnSample (the (table cfg)) (the (column cfg))
                                   (effective_sample_size cfg)]
             \<and> param_cache (snd (generate_query_param w cfg s))
                 = (param_cache s)(cache_key_of cfg
                      \<mapsto> (if vs = [] then [PStr ''default_if_empty''] else vs))
             \<and> fst (generate_query_param w cfg s)
                 = Inr ((if vs = [] then [PStr ''default_if_empty''] else vs)
                         ! (random_draw w (Suc (steps s))
                              mod length (if vs = [] then [PStr ''default_if_empty''] else vs)))"
      by blast
  qed
  from once task hit miss show ?thesis by (intro conjI)
qed

theorem sample_cache_fetches_once_in_turn_witness:
  "fetches_of (cache_key_of sample_config)
     (resolve_in_turn example_world [sample_config, sample_config, sample_config] initial_executor) = 1
   \<and> fst (generate_query_param example_world sample_config initial_executor) = Inr (PInt 8)"
  using sample_cache_fetches_once_in_turn
    [of example_world initial_executor sample_config "cache_key_of sample_config"
        "[sample_config, sample_config, sample_config]" initial_executor]
  by (simp add: fetches_of_def cache_key_of_def effective_sample_size_def sample_config_def
      generate_query_param_def
      param_request_def sample_request_def sample_resume_def sample_pick_def py_choice_def
      truthy_def example_world_def initial_executor_def Let_def tick_def)




section \<open>The resource monitor: records, states and cadence\<close>

lemma mon_emit_fields [simp]:
  "stop_event (mon_emit lv msg m) = stop_event m"
  "monitor_thread (mon_emit lv msg m) = monitor_thread m"
  "alive (mon_emit lv msg m) = alive m"
  "spawned (mon_emit lv msg m) = spawned m"
  "dbms_metric_last_run (mon_emit lv msg m) = dbms_metric_last_run m"
  "dispatched (mon_emit lv msg m) = dispatched m"
  "system_log (mon_emit lv msg m) = system_log m"
  "dbms_log (mon_emit lv msg m) = dbms_log m"
  "mon_logged (mon_emit lv msg m) = mon_logged m @ [(lv, msg)]"
  by (simp_all add: mon_emit_def)

lemma emit_rows_dbms_log:
  "dbms_log (emit_rows name clock k rows m)
     = dbms_log m @ map (\<lambda>i. \<lparr>metric_name = name, dm_timestamp = clock (k + i), data = rows ! i\<rparr>)
                        [0 ..< length rows]"
proof (induction rows arbitrary: k m)
  case Nil
  show ?case by simp
next
  case (Cons row rows)
  have "map (\<lambda>i. \<lparr>metric_name = name, dm_timestamp = clock (k + i), data = (row # rows) ! i\<rparr>)
          [0 ..< length (row # rows)]
        = \<lparr>metric_name = name, dm_timestamp = clock k, data = row\<rparr>
          # map (\<lambda>i. \<lparr>metric_name = name, dm_timestamp = clock (Suc k + i), data = rows ! i\<rparr>)
              [0 ..< length rows]"
    by (simp add: upt_conv_Cons map_Suc_upt [symmetric] del: upt_Suc)
  then show ?case
    by (simp add: Cons.IH log_dbms_metric_def)
qed

text \<open>
  The claim C8 as it is stated fails on its second half: \<open>datetime.now()\<close> is read
  inside the loop, once per row (line 62), so two rows of one result carry two timestamps
  as soon as the clock advances between them.
\<close>

theorem rows_carry_their_own_timestamps_counterexample:
  "map dm_timestamp
     (dbms_log (collect_one_dbms_metric ''wait_stats'' ''SELECT * FROM sys.dm_os_wait_stats''
                  (Inr (RList [[(''wait_type'', PStr ''CXPACKET'')], [(''wait_type'', PStr ''PAGEIOLATCH_SH'')]]))
                  (\<lambda>i. 100 + real i) initial_monitor))
   = [100, 101]"
  by (simp add: collect_one_dbms_metric_def log_dbms_metric_def initial_monitor_def)

text \<open>
  C8, amended. A dispatched query whose result is a list of rows hands exactly one record
  per row to the collector, in row order; each record carries the metric's name, the row,
  and the time read when that row is handled.
\<close>

theorem one_record_per_row:
  "dbms_log (collect_one_dbms_metric metric_cfg_name query (Inr (RList rows)) clock m)
     = dbms_log m
       @ map (\<lambda>i. \<lparr>metric_name = metric_cfg_name, dm_timestamp = clock i, data = rows ! i\<rparr>)
           [0 ..< length rows]"
  by (simp add: collect_one_dbms_metric_def emit_rows_dbms_log)


lemma thread_is_alive_frame [simp]:
  "thread_is_alive (mon_emit lv msg m) = thread_is_alive m"
  "thread_is_alive (m\<lparr>stop_event := b\<rparr>) = thread_is_alive m"
  by (simp_all add: thread_is_alive_def split: option.splits)

lemma start_monitoring_running:
  "\<not> thread_is_alive m \<Longrightarrow>
   phase_of (start_monitoring cfg m) = Running
   \<and> monitor_thread (start_monitoring cfg m) = Some (spawned m)
   \<and> alive (start_monitoring cfg m) = insert (spawned m) (alive m)
   \<and> spawned (start_monitoring cfg m) = Suc (spawned m)"
  by (simp add: start_monitoring_def phase_of_def thread_is_alive_def)

lemma stop_monitoring_idle:
  "\<not> thread_is_alive (snd (stop_monitoring exit_delay m))"
  by (auto simp add: stop_monitoring_def thread_is_alive_def case_prod_unfold Let_def
      split: option.splits)

lemma stop_monitoring_bounded:
  "fst (stop_monitoring exit_delay m) \<le> 10"
  by (simp add: stop_monitoring_def join_thread_def case_prod_unfold Let_def split: option.splits)

lemma stop_monitoring_alive:
  assumes "thread_is_alive m"
  shows "stop_event (snd (stop_monitoring exit_delay m))
       \<and> monitor_thread (snd (stop_monitoring exit_delay m)) = None
       \<and> (snd (join_thread 10 exit_delay) \<longrightarrow>
            alive (snd (stop_monitoring exit_delay m)) = alive m - {the (monitor_thread m)}
          \<and> mon_logged (snd (stop_monitoring exit_delay m))
              = mon_logged m @ [(INFO, ''Stopping resource monitoring...''),
                                (INFO, ''Resource monitoring stopped successfully.'')])
       \<and> (\<not> snd (join_thread 10 exit_delay) \<longrightarrow>
            alive (snd (stop_monitoring exit_delay m)) = alive m
          \<and> mon_logged (snd (stop_monitoring exit_delay m))
              = mon_logged m @ [(INFO, ''Stopping resource monitoring...''),
                                (WARNING, ''Monitoring thread did not stop in time.'')])"
  using assms
  by (auto simp add: stop_monitoring_def signal_stop_def thread_is_alive_def case_prod_unfold
      Let_def split: option.splits)

text \<open>
  C9. \<open>start\<close> on a sampler whose thread is alive only logs a warning: no thread is
  created and the state is unchanged. \<open>start\<close> on an idle sampler creates the thread
  (running). \<open>stop\<close> on a running sampler sets the stop event (stopping), waits at most
  10 seconds for the thread, and drops the handle (idle); when the thread has not ended in
  time it stays alive and one warning is logged. After \<open>stop\<close> has returned, \<open>start\<close>
  leaves the sampler running again.
\<close>

theorem sampler_state_machine:
  "(thread_is_alive m \<longrightarrow>
      start_monitoring cfg m = mon_emit WARNING ''Monitoring is already running.'' m
    \<and> phase_of (start_monitoring cfg m) = phase_of m
    \<and> spawned (start_monitoring cfg m) = spawned m
    \<and> alive (start_monitoring cfg m) = alive m)
 \<and> (\<not> thread_is_alive m \<longrightarrow>
      phase_of m = Idle
    \<and> phase_of (start_monitoring cfg m) = Running
    \<and> spawned (start_monitoring cfg m) = Suc (spawned m))
 \<and> (thread_is_alive m \<longrightarrow>
      phase_of (signal_stop m) = Stopping
    \<and> stop_event (snd (stop_monitoring exit_delay m))
    \<and> (snd (join_thread 10 exit_delay) \<longrightarrow>
         alive (snd (stop_monitoring exit_delay m)) = alive m - {the (monitor_thread m)})
    \<and> (\<not> snd (join_thread 10 exit_delay) \<longrightarrow>
         alive (snd (stop_monitoring exit_delay m)) = alive m
       \<and> mon_logged (snd (stop_monitoring exit_delay m))
           = mon_logged m @ [(INFO, ''Stopping resource monitoring...''),
                             (WARNING, ''Monitoring thread did not stop in time.'')]))
 \<and> fst (stop_monitoring exit_delay m) \<le> 10
 \<and> phase_of (snd (stop_monitoring exit_delay m)) = Idle
 \<and> phase_of (start_monitoring cfg (snd (stop_monitoring exit_delay m))) = Running"
proof -
  have a: "thread_is_alive m \<longrightarrow>
      start_monitoring cfg m = mon_emit WARNING ''Monitoring is already running.'' m
    \<and> phase_of (start_monitoring cfg m) = phase_of m
    \<and> spawned (start_monitoring cfg m) = spawned m
    \<and> alive (start_monitoring cfg m) = alive m"
    by (auto simp add: start_monitoring_def phase_of_def thread_is_alive_def
        split: option.splits)
  have b: "\<not> thread_is_alive m \<longrightarrow>
      phase_of m = Idle
    \<and> phase_of (start_monitoring cfg m) = Running
    \<and> spawned (start_monitoring cfg m) = Suc (spawned m)"
    using start_monitoring_running [of m cfg] by (simp add: phase_of_def)
  have c: "thread_is_alive m \<longrightarrow>
      phase_of (signal_stop m) = Stopping
    \<and> stop_event (snd (stop_monitoring exit_delay m))
    \<and> (snd (join_thread 10 exit_delay) \<longrightarrow>
         alive (snd (stop_monitoring exit_delay m)) = alive m - {the (monitor_thread m)})
    \<and> (\<not> snd (join_thread 10 exit_delay) \<longrightarrow>
         alive (snd (stop_monitoring exit_delay m)) = alive m
       \<and> mon_logged (snd (stop_monitoring exit_delay m))
           = mon_logged m @ [(INFO, ''Stopping resource monitoring...''),
                             (WARNING, ''Monitoring thread did not stop in time.'')])"
    using stop_monitoring_alive [of m exit_delay]
    by (simp add: phase_of_def signal_stop_def)
  have d: "phase_of (snd (stop_monitoring exit_delay m)) = Idle"
    using stop_monitoring_idle [of exit_delay m] by (simp add: phase_of_def)
  have e: "phase_of (start_monitoring cfg (snd (stop_monitoring exit_delay m))) = Running"
    using start_monitoring_running [OF stop_monitoring_idle] by blast
  from a b c d e stop_monitoring_bounded [of exit_delay m] show ?thesis
    by (intro conjI)
qed

theorem sampler_state_machine_witness:
  "phase_of initial_monitor = Idle
   \<and> phase_of (start_monitoring \<lparr>os_metrics = [], dbms_metrics = [], monitoring_interval_seconds = 1\<rparr>
                 initial_monitor) = Running
   \<and> fst (stop_monitoring None
            (start_monitoring \<lparr>os_metrics = [], dbms_metrics = [], monitoring_interval_seconds = 1\<rparr>
               initial_monitor)) = 10
   \<and> alive (snd (stop_monitoring None
            (start_monitoring \<lparr>os_metrics = [], dbms_metrics = [], monitoring_interval_seconds = 1\<rparr>
               initial_monitor))) = {0}
   \<and> phase_of (start_monitoring \<lparr>os_metrics = [], dbms_metrics = [], monitoring_interval_seconds = 1\<rparr>
        (snd (stop_monitoring None
            (start_monitoring \<lparr>os_metrics = [], dbms_metrics = [], monitoring_interval_seconds = 1\<rparr>
               initial_monitor)))) = Running"
  using sampler_state_machine
    [of initial_monitor "\<lparr>os_metrics = [], dbms_metrics = [], monitoring_interval_seconds = 1\<rparr>" None]
    sampler_state_machine
    [of "start_monitoring \<lparr>os_metrics = [], dbms_metrics = [], monitoring_interval_seconds = 1\<rparr>
           initial_monitor"
        "\<lparr>os_metrics = [], dbms_metrics = [], monitoring_interval_seconds = 1\<rparr>" None]
  by (simp add: initial_monitor_def thread_is_alive_def start_monitoring_def stop_monitoring_def
      join_thread_def signal_stop_def mon_emit_def phase_of_def)


lemma collect_os_metrics_sync_frame:
  "stop_event (snd (collect_os_metrics_sync cfg ob m)) = stop_event m
   \<and> dispatched (snd (collect_os_metrics_sync cfg ob m)) = dispatched m
   \<and> dbms_metric_last_run (snd (collect_os_metrics_sync cfg ob m)) = dbms_metric_last_run m"
  by (simp add: collect_os_metrics_sync_def Let_def split: sum.splits option.splits prod.splits)

lemma log_system_metric_frame:
  "stop_event (log_system_metric d m) = stop_event m
   \<and> dispatched (log_system_metric d m) = dispatched m
   \<and> dbms_metric_last_run (log_system_metric d m) = dbms_metric_last_run m"
  by (simp add: log_system_metric_def)

lemma is_due_frame:
  "dbms_metric_last_run m' = dbms_metric_last_run m \<Longrightarrow> is_due now m' c = is_due now m c"
  by (simp add: is_due_def)

lemma dispatch_due_stop_event: "stop_event (dispatch_due now ms m) = stop_event m"
  by (induction ms arbitrary: m) simp_all

lemma dispatch_due_distinct:
  assumes "distinct (map m_name ms)"
  shows "dispatched (dispatch_due now ms m)
           = dispatched m @ map (\<lambda>c. (now, m_name c, m_query c)) (filter (is_due now m) ms)
       \<and> (\<forall>x. dbms_metric_last_run (dispatch_due now ms m) x
             = (if \<exists>c \<in> set ms. m_name c = x \<and> is_due now m c then Some now
                else dbms_metric_last_run m x))"
  using assms
proof (induction ms arbitrary: m)
  case Nil
  show ?case by simp
next
  case (Cons c ms)
  let ?m' = "if is_due now m c
        then m\<lparr>dispatched := dispatched m @ [(now, m_name c, m_query c)],
               dbms_metric_last_run := (dbms_metric_last_run m)(m_name c \<mapsto> now)\<rparr>
        else m"
  from Cons.prems have d: "distinct (map m_name ms)"
    by simp
  from Cons.prems have fresh: "\<forall>c' \<in> set ms. m_name c' \<noteq> m_name c"
    by (fastforce simp add: image_iff)
  have same: "\<forall>c' \<in> set ms. is_due now ?m' c' = is_due now m c'"
    using fresh by (simp add: is_due_def)
  then have flt: "filter (is_due now ?m') ms = filter (is_due now m) ms"
    by (intro filter_cong) auto
  from Cons.IH [OF d, of ?m']
  have IH1: "dispatched (dispatch_due now ms ?m')
           = dispatched ?m' @ map (\<lambda>c. (now, m_name c, m_query c)) (filter (is_due now ?m') ms)"
    and IH2: "\<forall>x. dbms_metric_last_run (dispatch_due now ms ?m') x
             = (if \<exists>c \<in> set ms. m_name c = x \<and> is_due now ?m' c then Some now
                else dbms_metric_last_run ?m' x)"
    by blast+
  have one: "dispatched (dispatch_due now (c # ms) m)
      = dispatched m @ map (\<lambda>c. (now, m_name c, m_query c)) (filter (is_due now m) (c # ms))"
    using IH1 unfolding flt by simp
  have two: "\<forall>x. dbms_metric_last_run (dispatch_due now (c # ms) m) x
             = (if \<exists>c' \<in> set (c # ms). m_name c' = x \<and> is_due now m c' then Some now
                else dbms_metric_last_run m x)"
  proof
    fix x
    have ex: "(\<exists>c' \<in> set ms. m_name c' = x \<and> is_due now ?m' c')
        = (\<exists>c' \<in> set ms. m_name c' = x \<and> is_due now m c')"
      using same by blast
    show "dbms_metric_last_run (dispatch_due now (c # ms) m) x
             = (if \<exists>c' \<in> set (c # ms). m_name c' = x \<and> is_due now m c' then Some now
                else dbms_metric_last_run m x)"
      using IH2 [rule_format, of x] unfolding ex by auto
  qed
  from one two show ?case by blast
qed

lemma monitoring_pass_single:
  assumes "dbms_metrics cfg = [mc]"
  shows "stop_event (monitoring_pass cfg ob m) = stop_event m
       \<and> dispatched (monitoring_pass cfg ob m)
           = dispatched m @ (if is_due (obs_time ob) m mc
                             then [(obs_time ob, m_name mc, m_query mc)] else [])
       \<and> dbms_metric_last_run (monitoring_pass cfg ob m) (m_name mc)
           = (if is_due (obs_time ob) m mc then Some (obs_time ob)
              else dbms_metric_last_run m (m_name mc))"
proof -
  let ?m1 = "snd (collect_os_metrics_sync cfg ob m)"
  let ?m2 = "case fst (collect_os_metrics_sync cfg ob m) of None \<Rightarrow> ?m1
             | Some d \<Rightarrow> log_system_metric d ?m1"
  have fr: "stop_event ?m2 = stop_event m \<and> dispatched ?m2 = dispatched m
      \<and> dbms_metric_last_run ?m2 = dbms_metric_last_run m"
    using collect_os_metrics_sync_frame [of cfg ob m] log_system_metric_frame [of _ ?m1]
    by (simp split: option.splits)
  then have due: "is_due (obs_time ob) ?m2 mc = is_due (obs_time ob) m mc"
    by (simp add: is_due_def)
  have pass: "monitoring_pass cfg ob m = dispatch_due (obs_time ob) [mc] ?m2"
    using assms by (simp add: monitoring_pass_def case_prod_unfold)
  show ?thesis
    unfolding pass using fr due by simp
qed

lemma passes_every_tenth:
  assumes cfg: "dbms_metrics cfg = [mc]" "frequency_seconds mc = 10"
  shows "\<lbrakk>\<forall>i < length obs. obs_time (obs ! i) = t0 + real (k + i);
          dbms_metric_last_run m (m_name mc) = Some (t0 + real l);
          l < k; k \<le> l + 10; l mod 10 = 0; \<not> stop_event m\<rbrakk>
     \<Longrightarrow> dispatched (monitoring_passes cfg obs m)
           = dispatched m @ map (\<lambda>j. (t0 + real j, m_name mc, m_query mc))
                                (filter (\<lambda>j. j mod 10 = 0) [k ..< k + length obs])"
proof (induction obs arbitrary: k l m)
  case Nil
  show ?case by simp
next
  case (Cons ob obs)
  from Cons.prems(1) have now: "obs_time ob = t0 + real k"
    by force
  from Cons.prems(1) have rest: "\<forall>i < length obs. obs_time (obs ! i) = t0 + real (Suc k + i)"
    by force
  have due: "is_due (obs_time ob) m mc \<longleftrightarrow> k = l + 10"
    using Cons.prems(2,3,4) cfg(2) now by (auto simp add: is_due_def)
  have kmod: "k mod 10 = 0 \<longleftrightarrow> k = l + 10"
    using Cons.prems(3,4,5) by presburger
  let ?m' = "monitoring_pass cfg ob m"
  from monitoring_pass_single [OF cfg(1), of ob m]
  have st: "\<not> stop_event ?m'"
    and disp: "dispatched ?m' = dispatched m @ (if k = l + 10 then [(t0 + real k, m_name mc, m_query mc)] else [])"
    and last: "dbms_metric_last_run ?m' (m_name mc)
        = Some (t0 + real (if k = l + 10 then k else l))"
    using Cons.prems(2,6) due now by simp_all
  let ?l' = "if k = l + 10 then k else l"
  have IH: "dispatched (monitoring_passes cfg obs ?m')
      = dispatched ?m' @ map (\<lambda>j. (t0 + real j, m_name mc, m_query mc))
                           (filter (\<lambda>j. j mod 10 = 0) [Suc k ..< Suc k + length obs])"
  proof (rule Cons.IH [OF rest last _ _ _ st])
    show "?l' < Suc k" using Cons.prems(3) by simp
    show "Suc k \<le> ?l' + 10" using Cons.prems(4) by auto
    show "?l' mod 10 = 0" using Cons.prems(5) kmod by auto
  qed
  have "[k ..< Suc (k + length obs)] = k # [Suc k ..< Suc (k + length obs)]"
    by (rule upt_conv_Cons) simp
  then have upt: "[k ..< k + length (ob # obs)] = k # [Suc k ..< Suc k + length obs]"
    by simp
  show ?case
    unfolding upt using Cons.prems(6) IH disp kmod by simp
qed


lemma start_monitoring_fields:
  assumes "\<not> thread_is_alive m"
  shows "\<not> stop_event (start_monitoring cfg m)"
    and "dispatched (start_monitoring cfg m) = dispatched m"
    and "dbms_metric_last_run (start_monitoring cfg m)
           = map_of (map (\<lambda>c. (m_name c, 0)) (dbms_metrics cfg))"
  using assms by (simp_all add: start_monitoring_def)

lemma dispatch_due_per_metric:
  assumes d: "distinct (map m_name ms)"
  shows "dispatched (dispatch_due now ms m)
        = dispatched m @ map (\<lambda>c. (now, m_name c, m_query c)) (filter (is_due now m) ms)
    \<and> (\<forall>c \<in> set ms. dbms_metric_last_run (dispatch_due now ms m) (m_name c)
           = (if is_due now m c then Some now else dbms_metric_last_run m (m_name c)))"
proof -
  from dispatch_due_distinct [OF d, of now m]
  have one: "dispatched (dispatch_due now ms m)
      = dispatched m @ map (\<lambda>c. (now, m_name c, m_query c)) (filter (is_due now m) ms)"
    and two: "\<And>x. dbms_metric_last_run (dispatch_due now ms m) x
           = (if \<exists>c \<in> set ms. m_name c = x \<and> is_due now m c then Some now
              else dbms_metric_last_run m x)"
    by blast+
  have inj: "inj_on m_name (set ms)"
    using d by (simp add: distinct_map)
  have ex: "(\<exists>c' \<in> set ms. m_name c' = m_name c \<and> is_due now m c') = is_due now m c"
    if "c \<in> set ms" for c
    using that inj by (auto dest: inj_onD)
  have "dbms_metric_last_run (dispatch_due now ms m) (m_name c)
         = (if is_due now m c then Some now else dbms_metric_last_run m (m_name c))"
    if "c \<in> set ms" for c
    unfolding two ex [OF that] by (rule refl)
  with one show ?thesis by blast
qed


lemma collect_os_metrics_sync_dbms_log:
  "dbms_log (snd (collect_os_metrics_sync cfg ob m)) = dbms_log m"
  by (simp add: collect_os_metrics_sync_def Let_def split: sum.splits option.splits prod.splits)

lemma dispatch_due_dbms_log: "dbms_log (dispatch_due now ms m) = dbms_log m"
  by (induction ms arbitrary: m) simp_all

lemma monitoring_pass_dbms_log: "dbms_log (monitoring_pass cfg ob m) = dbms_log m"
  by (simp add: monitoring_pass_def case_prod_unfold dispatch_due_dbms_log
      log_system_metric_def collect_os_metrics_sync_dbms_log split: option.splits)

lemma monitoring_passes_dbms_log: "dbms_log (monitoring_passes cfg obs m) = dbms_log m"
  by (induction obs arbitrary: m) (simp_all add: monitoring_pass_dbms_log)

lemma monitoring_loop_sync_dbms_log:
  "dbms_log (snd (monitoring_loop_sync cfg priming obs m)) = dbms_log m"
  by (simp add: monitoring_loop_sync_def Let_def monitoring_passes_dbms_log split: sum.splits)

lemma monitoring_loop_sync_priming_raises:
  assumes "''cpu_percent'' \<in> set (os_metrics cfg)" and "priming = Inl e"
  shows "monitoring_loop_sync cfg priming obs m
    = (Inl e, mon_emit INFO ''Resource monitoring loop started. Interval: {self.monitoring_config.monitoring_interval_seconds}s'' m)"
  using assms by (simp add: monitoring_loop_sync_def)

lemma monitoring_loop_sync_primed:
  assumes "''cpu_percent'' \<notin> set (os_metrics cfg) \<or> (\<exists>v. priming = Inr v)"
  shows "monitoring_loop_sync cfg priming obs m
    = (Inr (), monitoring_passes cfg obs
         (mon_emit INFO ''Resource monitoring loop started. Interval: {self.monitoring_config.monitoring_interval_seconds}s'' m))"
  using assms by (auto simp add: monitoring_loop_sync_def)

lemma loop_dispatches_every_tenth:
  assumes single: "dbms_metrics cfg = [mc]" and freq: "frequency_seconds mc = 10"
    and interval: "monitoring_interval_seconds cfg = 1"
    and epoch: "10 \<le> t0" and sched: "on_schedule cfg t0 obs" and idle: "\<not> thread_is_alive idle"
    and primed: "''cpu_percent'' \<notin> set (os_metrics cfg) \<or> (\<exists>v. priming = Inr v)"
  shows "fst (monitoring_loop_sync cfg priming obs (start_monitoring cfg idle)) = Inr ()
       \<and> dispatched (snd (monitoring_loop_sync cfg priming obs (start_monitoring cfg idle)))
          = dispatched idle
            @ map (\<lambda>k. (t0 + real k, m_name mc, m_query mc))
                (filter (\<lambda>k. k mod 10 = 0) [0 ..< length obs])"
proof -
  let ?m0 = "mon_emit INFO ''Resource monitoring loop started. Interval: {self.monitoring_config.monitoring_interval_seconds}s''
               (start_monitoring cfg idle)"
  have run: "monitoring_loop_sync cfg priming obs (start_monitoring cfg idle)
      = (Inr (), monitoring_passes cfg obs ?m0)"
    using primed by (rule monitoring_loop_sync_primed)
  from start_monitoring_fields [OF idle, of cfg] single
  have st0: "\<not> stop_event ?m0" and d0: "dispatched ?m0 = dispatched idle"
    and l0: "dbms_metric_last_run ?m0 (m_name mc) = Some 0"
    by simp_all
  from sched interval have times: "\<forall>i < length obs. obs_time (obs ! i) = t0 + real i"
    by (simp add: on_schedule_def list_all_iff)
  have "dispatched (monitoring_passes cfg obs ?m0)
          = dispatched idle
            @ map (\<lambda>k. (t0 + real k, m_name mc, m_query mc))
                (filter (\<lambda>k. k mod 10 = 0) [0 ..< length obs])"
  proof (cases obs)
    case Nil
    then show ?thesis using d0 by simp
  next
    case (Cons ob rest)
    from times Cons have "obs_time (obs ! 0) = t0 + real (0::nat)"
      by (metis length_greater_0_conv list.distinct(1))
    with Cons have now: "obs_time ob = t0" by simp
    have later: "\<forall>i < length rest. obs_time (rest ! i) = t0 + real (1 + i)"
    proof (intro allI impI)
      fix i assume "i < length rest"
      with Cons have "Suc i < length obs" by simp
      with times have "obs_time (obs ! Suc i) = t0 + real (Suc i)" by blast
      with Cons show "obs_time (rest ! i) = t0 + real (1 + i)" by simp
    qed
    have first_due: "is_due (obs_time ob) ?m0 mc"
      using epoch freq l0 now by (simp add: is_due_def)
    let ?m1 = "monitoring_pass cfg ob ?m0"
    from monitoring_pass_single [OF single, of ob ?m0] first_due now st0 d0
    have st1: "\<not> stop_event ?m1"
      and d1: "dispatched ?m1 = dispatched idle @ [(t0, m_name mc, m_query mc)]"
      and l1: "dbms_metric_last_run ?m1 (m_name mc) = Some (t0 + real 0)"
      by simp_all
    have rest_eq: "dispatched (monitoring_passes cfg rest ?m1)
        = dispatched ?m1 @ map (\<lambda>j. (t0 + real j, m_name mc, m_query mc))
                             (filter (\<lambda>j. j mod 10 = 0) [1 ..< 1 + length rest])"
      by (rule passes_every_tenth [OF single freq later l1 _ _ _ st1]) simp_all
    have "[0 ..< Suc (length rest)] = 0 # [Suc 0 ..< Suc (length rest)]"
      by (rule upt_conv_Cons) simp
    then have upt: "[0 ..< length obs] = 0 # [1 ..< 1 + length rest]"
      using Cons by simp
    have "monitoring_passes cfg obs ?m0 = monitoring_passes cfg rest ?m1"
      using st0 Cons by simp
    then show ?thesis
      unfolding upt using rest_eq d1 by simp
  qed
  then show ?thesis
    unfolding run by simp
qed

text \<open>
  C3. A dispatch is the hand-off of the metric's coroutine to
  \<open>asyncio.run_coroutine_threadsafe\<close>. In one pass, with distinct metric names, exactly
  the metrics with \<open>now - last_run[name] \<ge> frequency\<close> are dispatched, in configuration
  order, and \<open>last_run[name]\<close> of a dispatched metric becomes \<open>now\<close>, the time read
  before the dispatch. For one metric of frequency 10, passes one second apart, a clock
  that reads at least 10 at the first pass, and a call of line 75 that returns (or no
  \<open>'cpu_percent'\<close> configured), the loop started by \<open>start_monitoring\<close> dispatches in
  passes 0, 10, 20, \<dots> and in no other pass. When the call of line 75 raises, the function
  ends with that exception before the first pass and dispatches nothing. In every case the
  function itself logs no database metric: the event loop that holds the dispatched
  coroutines is not run by it.
\<close>

theorem dbms_metric_cadence:
  "(distinct (map m_name ms) \<longrightarrow>
      dispatched (dispatch_due now ms m)
        = dispatched m @ map (\<lambda>c. (now, m_name c, m_query c)) (filter (is_due now m) ms)
    \<and> (\<forall>c \<in> set ms. dbms_metric_last_run (dispatch_due now ms m) (m_name c)
           = (if is_due now m c then Some now else dbms_metric_last_run m (m_name c))))
 \<and> (is_due now m c \<longleftrightarrow>
       now - (case dbms_metric_last_run m (m_name c) of None \<Rightarrow> 0 | Some t \<Rightarrow> t)
         \<ge> real_of_int (frequency_seconds c))
 \<and> (dbms_metrics cfg = [mc] \<and> frequency_seconds mc = 10 \<and> monitoring_interval_seconds cfg = 1
      \<and> 10 \<le> t0 \<and> on_schedule cfg t0 obs \<and> \<not> thread_is_alive idle
      \<and> (''cpu_percent'' \<notin> set (os_metrics cfg) \<or> (\<exists>v. priming = Inr v))
    \<longrightarrow> fst (monitoring_loop_sync cfg priming obs (start_monitoring cfg idle)) = Inr ()
        \<and> dispatched (snd (monitoring_loop_sync cfg priming obs (start_monitoring cfg idle)))
          = dispatched idle
            @ map (\<lambda>k. (t0 + real k, m_name mc, m_query mc))
                (filter (\<lambda>k. k mod 10 = 0) [0 ..< length obs]))
 \<and> (''cpu_percent'' \<in> set (os_metrics cfg) \<and> priming = Inl e
    \<longrightarrow> fst (monitoring_loop_sync cfg priming obs m) = Inl e
        \<and> dispatched (snd (monitoring_loop_sync cfg priming obs m)) = dispatched m)
 \<and> dbms_log (snd (monitoring_loop_sync cfg priming obs m)) = dbms_log m"
proof -
  have per_pass: "distinct (map m_name ms) \<longrightarrow>
      dispatched (dispatch_due now ms m)
        = dispatched m @ map (\<lambda>c. (now, m_name c, m_query c)) (filter (is_due now m) ms)
    \<and> (\<forall>c \<in> set ms. dbms_metric_last_run (dispatch_due now ms m) (m_name c)
           = (if is_due now m c then Some now else dbms_metric_last_run m (m_name c)))"
    using dispatch_due_per_metric by blast
  have due: "is_due now m c \<longleftrightarrow>
       now - (case dbms_metric_last_run m (m_name c) of None \<Rightarrow> 0 | Some t \<Rightarrow> t)
         \<ge> real_of_int (frequency_seconds c)"
    by (simp add: is_due_def)
  have schedule: "dbms_metrics cfg = [mc] \<and> frequency_seconds mc = 10 \<and> monitoring_interval_seconds cfg = 1
      \<and> 10 \<le> t0 \<and> on_schedule cfg t0 obs \<and> \<not> thread_is_alive idle
      \<and> (''cpu_percent'' \<notin> set (os_metrics cfg) \<or> (\<exists>v. priming = Inr v))
    \<longrightarrow> fst (monitoring_loop_sync cfg priming obs (start_monitoring cfg idle)) = Inr ()
        \<and> dispatched (snd (monitoring_loop_sync cfg priming obs (start_monitoring cfg idle)))
          = dispatched idle
            @ map (\<lambda>k. (t0 + real k, m_name mc, m_query mc))
                (filter (\<lambda>k. k mod 10 = 0) [0 ..< length obs])"
    using loop_dispatches_every_tenth by blast
  have raises: "''cpu_percent'' \<in> set (os_metrics cfg) \<and> priming = Inl e
    \<longrightarrow> fst (monitoring_loop_sync cfg priming obs m) = Inl e
        \<and> dispatched (snd (monitoring_loop_sync cfg priming obs m)) = dispatched m"
    using monitoring_loop_sync_priming_raises [of cfg priming e obs m] by simp
  have unrun: "dbms_log (snd (monitoring_loop_sync cfg priming obs m)) = dbms_log m"
    by (rule monitoring_loop_sync_dbms_log)
  from per_pass due schedule raises unrun show ?thesis
    by (intro conjI)
qed

lemma on_schedule_example:
  "on_schedule (example_monitoring\<lparr>os_metrics := ms\<rparr>) 1000 (map example_observation [0 ..< n])"
  by (simp add: on_schedule_def list_all_iff example_monitoring_def example_observation_def)

lemma every_tenth_below_12: "filter (\<lambda>k. k mod 10 = 0) [0 ..< 12] = [0, 10::nat]"
  by code_simp

theorem dbms_metric_cadence_witness:
  "fst (monitoring_loop_sync (example_monitoring\<lparr>os_metrics := [''cpu_percent'']\<rparr>) (Inr 0)
          (map example_observation [0 ..< 12])
          (start_monitoring (example_monitoring\<lparr>os_metrics := [''cpu_percent'']\<rparr>) initial_monitor))
     = Inr ()
   \<and> dispatched (snd (monitoring_loop_sync (example_monitoring\<lparr>os_metrics := [''cpu_percent'']\<rparr>) (Inr 0)
                 (map example_observation [0 ..< 12])
                 (start_monitoring (example_monitoring\<lparr>os_metrics := [''cpu_percent'']\<rparr>) initial_monitor)))
     = [(1000, ''wait_stats'', ''SELECT * FROM sys.dm_os_wait_stats''),
        (1010, ''wait_stats'', ''SELECT * FROM sys.dm_os_wait_stats'')]
   \<and> monitoring_loop_sync (example_monitoring\<lparr>os_metrics := [''cpu_percent'']\<rparr>)
        (Inl (OtherError ''psutil'')) (map example_observation [0 ..< 12]) initial_monitor
     = (Inl (OtherError ''psutil''),
        mon_emit INFO ''Resource monitoring loop started. Interval: {self.monitoring_config.monitoring_interval_seconds}s''
          initial_monitor)"
proof -
  let ?cfg = "example_monitoring\<lparr>os_metrics := [''cpu_percent'']\<rparr>"
  let ?obs = "map example_observation [0 ..< 12]"
  have idle: "\<not> thread_is_alive initial_monitor"
    by (simp add: thread_is_alive_def initial_monitor_def)
  have primed: "''cpu_percent'' \<notin> set (os_metrics ?cfg) \<or> (\<exists>v. (Inr 0 :: exn + real) = Inr v)"
    by simp
  from dbms_metric_cadence
    [of "[]" 0 initial_monitor "hd (dbms_metrics ?cfg)" ?cfg
        "hd (dbms_metrics ?cfg)" 1000 ?obs initial_monitor "Inr 0" "OtherError ''psutil''"]
    on_schedule_example [of "[''cpu_percent'']" 12] idle primed
  have "fst (monitoring_loop_sync ?cfg (Inr 0) ?obs (start_monitoring ?cfg initial_monitor)) = Inr ()
     \<and> dispatched (snd (monitoring_loop_sync ?cfg (Inr 0) ?obs (start_monitoring ?cfg initial_monitor)))
     = dispatched initial_monitor
       @ map (\<lambda>k. (1000 + real k, ''wait_stats'', ''SELECT * FROM sys.dm_os_wait_stats''))
           (filter (\<lambda>k. k mod 10 = 0) [0 ..< 12])"
    by (simp add: example_monitoring_def)
  moreover have "monitoring_loop_sync ?cfg (Inl (OtherError ''psutil'')) ?obs initial_monitor
     = (Inl (OtherError ''psutil''),
        mon_emit INFO ''Resource monitoring loop started. Interval: {self.monitoring_config.monitoring_interval_seconds}s''
          initial_monitor)"
    by (simp add: monitoring_loop_sync_def example_monitoring_def)
  ultimately show ?thesis
    unfolding every_tenth_below_12 by (simp add: initial_monitor_def)
qed

section \<open>The read-back of the database-metric log\<close>

text \<open>
  C7. The read-back skips a line that is no JSON, lacks a key or has a timestamp that is
  no string, and goes on. A line whose timestamp is a string but no ISO date raises
  ValueError, which the handler of the line does not list: the outer handler ends the
  read, and the records of all later lines are lost. Here the first line is such a line;
  the code returns nothing, where the read-back the claim describes returns the record of
  the second line.
\<close>

theorem bad_timestamp_ends_read_back:
  "get_collected_dbms_metrics example_json_loads example_fromisoformat
     (Lines [''{\"metric_name\": \"wait_stats\", \"timestamp\": \"yesterday\", \"data\": {}}'',
             ''{\"metric_name\": \"wait_stats\", \"timestamp\": \"2024-01-01T00:00:00\", \"data\": {}}''])
     None
   = ([], [(ERROR, ''Error reading DBMS metrics from {self.dbms_log_path}: {e}'')])
   \<and> read_back_spec example_json_loads example_fromisoformat
     (Lines [''{\"metric_name\": \"wait_stats\", \"timestamp\": \"yesterday\", \"data\": {}}'',
             ''{\"metric_name\": \"wait_stats\", \"timestamp\": \"2024-01-01T00:00:00\", \"data\": {}}''])
     None
   = [\<lparr>metric_name = JStr ''wait_stats'', dm_timestamp = 1704067200, data = JObj []\<rparr>]"
  by (simp add: get_collected_dbms_metrics_def read_line_def read_back_spec_def record_of_line_def
      example_json_loads_def example_fromisoformat_def dict_get_def List.map_filter_def
      selected_def)


text \<open>
  Where no line of the file takes that path, the code returns what the claim describes.
\<close>

lemma read_line_agrees:
  "read_line jl fi flt line \<noteq> Abort \<Longrightarrow>
   (case read_line jl fi flt line of Collect r \<Rightarrow> [r] | _ \<Rightarrow> [])
     = filter (selected flt) (List.map_filter (record_of_line jl fi) [line])"
  by (auto simp add: read_line_def record_of_line_def selected_def List.map_filter_def
      split: option.splits json.splits if_splits)

lemma read_lines_agrees:
  "\<forall>line \<in> set ls. read_line jl fi flt line \<noteq> Abort \<Longrightarrow>
   fst (read_lines jl fi flt ls collected lg)
     = collected @ filter (selected flt) (List.map_filter (record_of_line jl fi) ls)"
proof (induction ls arbitrary: collected lg)
  case Nil
  show ?case by (simp add: List.map_filter_def)
next
  case (Cons line ls)
  from Cons.prems have ok: "read_line jl fi flt line \<noteq> Abort"
    and rest: "\<forall>line \<in> set ls. read_line jl fi flt line \<noteq> Abort"
    by simp_all
  have split: "List.map_filter (record_of_line jl fi) (line # ls)
      = List.map_filter (record_of_line jl fi) [line] @ List.map_filter (record_of_line jl fi) ls"
    by (simp add: List.map_filter_def)
  show ?case
    using read_line_agrees [OF ok] Cons.IH [OF rest] ok
    unfolding split
    by (cases "read_line jl fi flt line") simp_all
qed

lemma read_back_without_abort:
  "\<forall>line \<in> set ls. read_line jl fi flt line \<noteq> Abort \<Longrightarrow>
   fst (get_collected_dbms_metrics jl fi (Lines ls) flt) = read_back_spec jl fi (Lines ls) flt"
  using read_lines_agrees [of ls jl fi flt "[]" "[]"]
  by (simp add: get_collected_dbms_metrics_def read_back_spec_def selected_def)


end
